theory Spec2Isabelle
  imports Complex_Main "HOL-Library.Multiset"
begin

chapter \<open>The program\<close>

section \<open>Strings\<close>

text \<open>
  The program is TypeScript; its strings are modelled as \<open>string\<close> (a list of 8-bit
  characters, read as the code units 0..255). The functions below are the string methods
  the program calls, under their JavaScript names with the prefix \<open>js_\<close>.
\<close>

text \<open>\<open>s.includes(t)\<close>: \<open>t\<close> occurs in \<open>s\<close> as a contiguous substring.\<close>

fun js_includes :: "string \<Rightarrow> string \<Rightarrow> bool" where
  "js_includes [] t = (t = [])"
| "js_includes (c # cs) t = (take (length t) (c # cs) = t \<or> js_includes cs t)"

definition js_startsWith :: "string \<Rightarrow> string \<Rightarrow> bool" where
  "js_startsWith s t = (take (length t) s = t)"

definition js_endsWith :: "string \<Rightarrow> string \<Rightarrow> bool" where
  "js_endsWith s t = (length t \<le> length s \<and> drop (length s - length t) s = t)"

text \<open>
  White space as \<open>trim\<close> and the regular-expression class \<open>\s\<close> see it: tab, line feed,
  vertical tab, form feed, carriage return, space and the no-break space U+00A0.
\<close>

definition isSpace :: "char \<Rightarrow> bool" where
  "isSpace c = (of_char c \<in> {9, 10, 11, 12, 13, 32, 160 :: nat})"

definition js_trim :: "string \<Rightarrow> string" where
  "js_trim s = rev (dropWhile isSpace (rev (dropWhile isSpace s)))"

text \<open>\<open>s.split(c)\<close> for a one-character separator: always at least one piece.\<close>

fun js_split :: "char \<Rightarrow> string \<Rightarrow> string list" where
  "js_split sep [] = [[]]"
| "js_split sep (c # cs) =
     (if c = sep then [] # js_split sep cs
      else (case js_split sep cs of
              [] \<Rightarrow> [[c]]
            | p # ps \<Rightarrow> (c # p) # ps))"

fun js_join :: "string \<Rightarrow> string list \<Rightarrow> string" where
  "js_join sep [] = []"
| "js_join sep [x] = x"
| "js_join sep (x # y # ys) = x @ sep @ js_join sep (y # ys)"

definition isUpper :: "char \<Rightarrow> bool" where
  "isUpper c = (65 \<le> (of_char c :: nat) \<and> (of_char c :: nat) \<le> 90)"

definition isLower :: "char \<Rightarrow> bool" where
  "isLower c = (97 \<le> (of_char c :: nat) \<and> (of_char c :: nat) \<le> 122)"

definition isDigit :: "char \<Rightarrow> bool" where
  "isDigit c = (48 \<le> (of_char c :: nat) \<and> (of_char c :: nat) \<le> 57)"

text \<open>The regular-expression class \<open>\w\<close>: \<open>[A-Za-z0-9_]\<close>.\<close>

definition isWord :: "char \<Rightarrow> bool" where
  "isWord c = (isUpper c \<or> isLower c \<or> isDigit c \<or> c = CHR ''_'')"

text \<open>
  \<open>toLowerCase\<close> and \<open>toUpperCase\<close> on the code units 0..255: the ASCII letters and the
  Latin-1 letters U+00C0..U+00DE / U+00E0..U+00FE (without the signs U+00D7 and U+00F7)
  change case by 32; every other unit in this range whose case mapping stays in the range is
  left as it is.
\<close>

definition lowerChar :: "char \<Rightarrow> char" where
  "lowerChar c =
     (let n = (of_char c :: nat)
      in if (65 \<le> n \<and> n \<le> 90) \<or> (192 \<le> n \<and> n \<le> 222 \<and> n \<noteq> 215)
         then char_of (n + 32) else c)"

definition upperChar :: "char \<Rightarrow> char" where
  "upperChar c =
     (let n = (of_char c :: nat)
      in if (97 \<le> n \<and> n \<le> 122) \<or> (224 \<le> n \<and> n \<le> 254 \<and> n \<noteq> 247)
         then char_of (n - 32) else c)"

definition js_toLowerCase :: "string \<Rightarrow> string" where
  "js_toLowerCase s = map lowerChar s"

definition js_toUpperCase :: "string \<Rightarrow> string" where
  "js_toUpperCase s = map upperChar s"


section \<open>Data model\<close>

text \<open>
  \<open>GitDiff\<close> and \<open>StagedChanges\<close> are the interfaces of the version-control adapter. The
  field \<open>file\<close> of the source is called \<open>file_name\<close> here, since \<open>file\<close> is reserved.
  \<open>additions\<close> and \<open>deletions\<close> are counts of lines.
\<close>

record GitDiff =
  file_name :: string
  status :: string
  additions :: nat
  deletions :: nat
  diff :: string

record StagedChanges =
  files :: "GitDiff list"
  summary :: string
  hasChanges :: bool

text \<open>The result of \<open>analyzeChangesForFallback\<close>.\<close>

record analysis =
  type :: string
  category :: string
  mainFiles :: "string list"

section \<open>Change classifier\<close>

text \<open>The flags and the list that \<open>analyzeChangesForFallback\<close> updates while it scans.\<close>

record scan =
  hasTests :: bool
  hasDocs :: bool
  hasConfig :: bool
  hasBuild :: bool
  hasComponents :: bool
  hasAPI :: bool
  hasStyles :: bool
  hasCLI :: bool
  pushed :: "string list"

definition scan0 :: scan where
  "scan0 = \<lparr>hasTests = False, hasDocs = False, hasConfig = False, hasBuild = False,
     hasComponents = False, hasAPI = False, hasStyles = False, hasCLI = False, pushed = []\<rparr>"

text \<open>The body of the \<open>forEach\<close> over the files: one \<open>if\<close>/\<open>else if\<close> chain per file.\<close>

definition scanFile :: "scan \<Rightarrow> GitDiff \<Rightarrow> scan" where
  "scanFile s f =
     (let p = file_name f in
      if js_includes p ''.test.'' \<or> js_includes p ''.spec.'' then s\<lparr>hasTests := True\<rparr>
      else if js_endsWith p ''.md'' then
        (if additions f > 10 then s\<lparr>hasDocs := True, pushed := pushed s @ [p]\<rparr>
         else s\<lparr>hasDocs := True\<rparr>)
      else if js_includes p ''package.json'' \<or> js_includes p ''tsconfig.json''
              \<or> js_includes p ''.config.'' then s\<lparr>hasConfig := True\<rparr>
      else if js_includes p ''webpack'' \<or> js_includes p ''vite'' \<or> js_includes p ''build''
              \<or> js_includes p ''/dist/'' then s\<lparr>hasBuild := True\<rparr>
      else if js_includes p ''/cli/'' \<or> js_includes p ''cli-'' then s\<lparr>hasCLI := True\<rparr>
      else if js_includes p ''component'' \<or> js_endsWith p ''.tsx'' \<or> js_endsWith p ''.jsx'' then
        (if additions f + deletions f > 20 then s\<lparr>hasComponents := True, pushed := pushed s @ [p]\<rparr>
         else s\<lparr>hasComponents := True\<rparr>)
      else if js_includes p ''/api/'' \<or> js_includes p ''route.'' \<or> js_includes p ''controller'' then
        s\<lparr>hasAPI := True, pushed := pushed s @ [p]\<rparr>
      else if js_endsWith p ''.css'' \<or> js_endsWith p ''.scss'' \<or> js_includes p ''style'' then
        s\<lparr>hasStyles := True\<rparr>
      else if additions f + deletions f > 30 then s\<lparr>pushed := pushed s @ [p]\<rparr>
      else s)"

text \<open>\<open>changes.files.reduce((sum, f) => sum + f.additions, 0)\<close> and the same for deletions.\<close>

definition totalAdditions :: "GitDiff list \<Rightarrow> nat" where
  "totalAdditions fs = foldl (\<lambda>sum f. sum + additions f) 0 fs"

definition totalDeletions :: "GitDiff list \<Rightarrow> nat" where
  "totalDeletions fs = foldl (\<lambda>sum f. sum + deletions f) 0 fs"

definition analyzeChangesForFallback :: "StagedChanges \<Rightarrow> analysis" where
  "analyzeChangesForFallback changes =
     (let s = foldl scanFile scan0 (files changes);
          tc =
            (if hasTests s then (''test'', ''testing'')
             else if hasDocs s \<and> \<not> hasComponents s \<and> \<not> hasAPI s then (''docs'', ''documentation'')
             else if hasConfig s \<and> length (files changes) \<le> 3 then (''chore'', ''configuration'')
             else if hasBuild s \<or> hasCLI s then (''build'', if hasCLI s then ''cli'' else ''build'')
             else if hasStyles s \<and> \<not> hasComponents s \<and> \<not> hasAPI s then (''style'', ''styling'')
             else if hasAPI s then
               (if totalAdditions (files changes) > 50 then ''feat'' else ''fix'', ''API'')
             else if hasComponents s then
               (if totalAdditions (files changes) > 50 then ''feat'' else ''fix'', ''components'')
             else
               (let adds = totalAdditions (files changes);
                    dels = totalDeletions (files changes)
                in if adds > dels * 2 then (''feat'', ''features'')
                   else if dels > adds * 2 then (''refactor'', ''refactoring'')
                   else (''fix'', ''fixes'')))
      in \<lparr>type = fst tc, category = snd tc, mainFiles = pushed s\<rparr>)"

text \<open>
  For the statements about the classifier: the branch of the per-file chain that a path
  takes, and whether a file pushes its path onto \<open>mainFiles\<close>.
\<close>

datatype file_kind =
  KTest | KDocs | KConfig | KBuild | KCLI | KComponent | KAPI | KStyle | KOther

definition fileKind :: "string \<Rightarrow> file_kind" where
  "fileKind p =
     (if js_includes p ''.test.'' \<or> js_includes p ''.spec.'' then KTest
      else if js_endsWith p ''.md'' then KDocs
      else if js_includes p ''package.json'' \<or> js_includes p ''tsconfig.json''
              \<or> js_includes p ''.config.'' then KConfig
      else if js_includes p ''webpack'' \<or> js_includes p ''vite'' \<or> js_includes p ''build''
              \<or> js_includes p ''/dist/'' then KBuild
      else if js_includes p ''/cli/'' \<or> js_includes p ''cli-'' then KCLI
      else if js_includes p ''component'' \<or> js_endsWith p ''.tsx'' \<or> js_endsWith p ''.jsx''
        then KComponent
      else if js_includes p ''/api/'' \<or> js_includes p ''route.'' \<or> js_includes p ''controller''
        then KAPI
      else if js_endsWith p ''.css'' \<or> js_endsWith p ''.scss'' \<or> js_includes p ''style''
        then KStyle
      else KOther)"

definition present :: "file_kind \<Rightarrow> GitDiff list \<Rightarrow> bool" where
  "present k fs = (\<exists>f \<in> set fs. fileKind (file_name f) = k)"

definition notable :: "GitDiff \<Rightarrow> bool" where
  "notable f =
     (case fileKind (file_name f) of
        KDocs \<Rightarrow> additions f > 10
      | KComponent \<Rightarrow> additions f + deletions f > 20
      | KAPI \<Rightarrow> True
      | KOther \<Rightarrow> additions f + deletions f > 30
      | _ \<Rightarrow> False)"

text \<open>
  The rules as the specification words them, for comparison with the program: "X files
  present" read as "the path of some file matches the pattern of X", so that one file may
  count for several patterns (a \<^verbatim>\<open>.tsx\<close> file under \<^verbatim>\<open>/api/\<close> is then both a
  component file and an API file). The cascade itself is the one of the specification.
\<close>

fun matchesPattern :: "file_kind \<Rightarrow> string \<Rightarrow> bool" where
  "matchesPattern KTest p = (js_includes p ''.test.'' \<or> js_includes p ''.spec.'')"
| "matchesPattern KDocs p = js_endsWith p ''.md''"
| "matchesPattern KConfig p =
     (js_includes p ''package.json'' \<or> js_includes p ''tsconfig.json'' \<or> js_includes p ''.config.'')"
| "matchesPattern KBuild p =
     (js_includes p ''webpack'' \<or> js_includes p ''vite'' \<or> js_includes p ''build''
      \<or> js_includes p ''/dist/'')"
| "matchesPattern KCLI p = (js_includes p ''/cli/'' \<or> js_includes p ''cli-'')"
| "matchesPattern KComponent p =
     (js_includes p ''component'' \<or> js_endsWith p ''.tsx'' \<or> js_endsWith p ''.jsx'')"
| "matchesPattern KAPI p =
     (js_includes p ''/api/'' \<or> js_includes p ''route.'' \<or> js_includes p ''controller'')"
| "matchesPattern KStyle p =
     (js_endsWith p ''.css'' \<or> js_endsWith p ''.scss'' \<or> js_includes p ''style'')"
| "matchesPattern KOther p = True"

definition anyMatching :: "file_kind \<Rightarrow> GitDiff list \<Rightarrow> bool" where
  "anyMatching k fs = list_ex (\<lambda>f. matchesPattern k (file_name f)) fs"

definition classifyAsWorded :: "GitDiff list \<Rightarrow> string \<times> string" where
  "classifyAsWorded fs =
     (if anyMatching KTest fs then (''test'', ''testing'')
      else if anyMatching KDocs fs \<and> \<not> anyMatching KComponent fs \<and> \<not> anyMatching KAPI fs
        then (''docs'', ''documentation'')
      else if anyMatching KConfig fs \<and> length fs \<le> 3 then (''chore'', ''configuration'')
      else if anyMatching KCLI fs then (''build'', ''cli'')
      else if anyMatching KBuild fs then (''build'', ''build'')
      else if anyMatching KStyle fs \<and> \<not> anyMatching KComponent fs \<and> \<not> anyMatching KAPI fs
        then (''style'', ''styling'')
      else if anyMatching KAPI fs then
        (if sum_list (map additions fs) > 50 then ''feat'' else ''fix'', ''API'')
      else if anyMatching KComponent fs then
        (if sum_list (map additions fs) > 50 then ''feat'' else ''fix'', ''components'')
      else if sum_list (map additions fs) > 2 * sum_list (map deletions fs)
        then (''feat'', ''features'')
      else if sum_list (map deletions fs) > 2 * sum_list (map additions fs)
        then (''refactor'', ''refactoring'')
      else (''fix'', ''fixes''))"

section \<open>Regular expressions\<close>

text \<open>
  The program matches lines against regular expressions. A pattern is a value of \<open>re\<close>,
  written constructor by constructor after the pattern in the source; \<open>rx_match\<close> is a
  backtracking matcher that returns every way of matching in the order in which the
  JavaScript engine tries them (alternatives left to right, quantifiers greedy, an optional
  part first taken and then skipped), so that the first element is the match the engine
  reports. Quantifiers occur in the program's patterns only over single characters
  (\<open>\s+\<close>, \<open>\w+\<close>, \<open>.*\<close>, \<open>[^)]+\<close>); \<open>Many n P\<close> is "at least \<open>n\<close> characters in \<open>P\<close>".
  A matching state is the position in the input, the rest of the input, and the groups
  captured so far.
\<close>

datatype re =
    Atom "char \<Rightarrow> bool"
  | Many nat "char \<Rightarrow> bool"
  | Seq "re list"
  | Alt "re list"
  | Opt re
  | Cap nat re
  | Bol
  | Eol

type_synonym captures = "nat \<Rightarrow> string option"

type_synonym mstate = "nat \<times> string \<times> captures"

fun rx_match :: "re \<Rightarrow> mstate \<Rightarrow> mstate list" where
  "rx_match (Atom P) (i, s, caps) =
     (case s of [] \<Rightarrow> [] | c # cs \<Rightarrow> if P c then [(Suc i, cs, caps)] else [])"
| "rx_match (Many n P) (i, s, caps) =
     map (\<lambda>j. (i + j, drop j s, caps)) (rev [n ..< Suc (length (takeWhile P s))])"
| "rx_match (Seq []) st = [st]"
| "rx_match (Seq (r # rs)) st = concat (map (rx_match (Seq rs)) (rx_match r st))"
| "rx_match (Alt []) st = []"
| "rx_match (Alt (r # rs)) st = rx_match r st @ rx_match (Alt rs) st"
| "rx_match (Opt r) st = rx_match r st @ [st]"
| "rx_match (Cap g r) (i, s, caps) =
     map (\<lambda>(j, s', caps'). (j, s', caps'(g \<mapsto> take (j - i) s))) (rx_match r (i, s, caps))"
| "rx_match Bol (i, s, caps) = (if i = 0 then [(i, s, caps)] else [])"
| "rx_match Eol (i, s, caps) = (if s = [] then [(i, s, caps)] else [])"

text \<open>A literal word, and a literal word under the flag \<open>i\<close> (ASCII letters of either case).\<close>

definition Lit :: "string \<Rightarrow> re" where
  "Lit w = Seq (map (\<lambda>c. Atom (\<lambda>x. x = c)) w)"

definition LitI :: "string \<Rightarrow> re" where
  "LitI w = Seq (map (\<lambda>c. Atom (\<lambda>x. lowerChar x = c)) w)"

text \<open>
  \<open>s.match(r)\<close> for a pattern without the flag \<open>g\<close>: the first match at the leftmost
  start position, as its captured groups; \<open>None\<close> is JavaScript's \<open>null\<close>.
\<close>

fun searchFrom :: "re \<Rightarrow> nat \<Rightarrow> string \<Rightarrow> captures option" where
  "searchFrom r i s =
     (case rx_match r (i, s, Map.empty) of
        (j, s', caps) # _ \<Rightarrow> Some caps
      | [] \<Rightarrow> (case s of [] \<Rightarrow> None | c # cs \<Rightarrow> searchFrom r (Suc i) cs))"

definition js_match :: "string \<Rightarrow> re \<Rightarrow> captures option" where
  "js_match s r = searchFrom r 0 s"

text \<open>
  \<open>match[n]\<close> for a group that takes part in every match of its pattern (the program reads
  no other group without a guard).
\<close>

definition group :: "captures \<Rightarrow> nat \<Rightarrow> string" where
  "group caps n = (case caps n of Some w \<Rightarrow> w | None \<Rightarrow> [])"

text \<open>The class \<open>.\<close>: any character but a line terminator.\<close>

definition notLineTerminator :: "char \<Rightarrow> bool" where
  "notLineTerminator c = (c \<noteq> CHR 0x0A \<and> c \<noteq> CHR 0x0D)"

definition isQuote :: "char \<Rightarrow> bool" where
  "isQuote c = (c = CHR 0x27 \<or> c = CHR 0x22)"

section \<open>Diff feature extractor\<close>

text \<open>The patterns of \<open>analyzeDiffsInDepth\<close>, each under the source's pattern.\<close>

text \<open>\<^verbatim>\<open>/^(export\s+)?(async\s+)?function\s+(\w+)/\<close> and \<^verbatim>\<open>/function\s+(\w+)/\<close>\<close>

definition reFunctionDecl :: re where
  "reFunctionDecl =
     Seq [Bol, Opt (Cap 1 (Seq [Lit ''export'', Many 1 isSpace])),
          Opt (Cap 2 (Seq [Lit ''async'', Many 1 isSpace])),
          Lit ''function'', Many 1 isSpace, Cap 3 (Many 1 isWord)]"

definition reFunctionName :: re where
  "reFunctionName = Seq [Lit ''function'', Many 1 isSpace, Cap 1 (Many 1 isWord)]"

text \<open>\<^verbatim>\<open>/^(export\s+)?const\s+(\w+)\s*=\s*(\(.*\)|async)/\<close> and \<^verbatim>\<open>/const\s+(\w+)/\<close>\<close>

definition reArrowDecl :: re where
  "reArrowDecl =
     Seq [Bol, Opt (Cap 1 (Seq [Lit ''export'', Many 1 isSpace])),
          Lit ''const'', Many 1 isSpace, Cap 2 (Many 1 isWord), Many 0 isSpace, Lit ''='',
          Many 0 isSpace,
          Cap 3 (Alt [Seq [Lit ''('', Many 0 notLineTerminator, Lit '')''], Lit ''async''])]"

definition reConstName :: re where
  "reConstName = Seq [Lit ''const'', Many 1 isSpace, Cap 1 (Many 1 isWord)]"

text \<open>\<^verbatim>\<open>/^(export\s+)?class\s+(\w+)/\<close> and \<^verbatim>\<open>/class\s+(\w+)/\<close>\<close>

definition reClassDecl :: re where
  "reClassDecl =
     Seq [Bol, Opt (Cap 1 (Seq [Lit ''export'', Many 1 isSpace])),
          Lit ''class'', Many 1 isSpace, Cap 2 (Many 1 isWord)]"

definition reClassName :: re where
  "reClassName = Seq [Lit ''class'', Many 1 isSpace, Cap 1 (Many 1 isWord)]"

text \<open>\<^verbatim>\<open>/\.(tsx|jsx)$/\<close>\<close>

definition reUiFile :: re where
  "reUiFile = Seq [Lit ''.'', Cap 1 (Alt [Lit ''tsx'', Lit ''jsx'']), Eol]"

text \<open>\<^verbatim>\<open>/^(export\s+)?(const|function)\s+([A-Z]\w+)/\<close> and
  \<^verbatim>\<open>/(?:const|function)\s+([A-Z]\w+)/\<close>\<close>

definition reComponentDecl :: re where
  "reComponentDecl =
     Seq [Bol, Opt (Cap 1 (Seq [Lit ''export'', Many 1 isSpace])),
          Cap 2 (Alt [Lit ''const'', Lit ''function'']), Many 1 isSpace,
          Cap 3 (Seq [Atom isUpper, Many 1 isWord])]"

definition reComponentName :: re where
  "reComponentName =
     Seq [Alt [Lit ''const'', Lit ''function''], Many 1 isSpace,
          Cap 1 (Seq [Atom isUpper, Many 1 isWord])]"

text \<open>\<^verbatim>\<open>/^import\s+.*from/\<close> and \<^verbatim>\<open>/from\s+['"](.+)['"]/\<close>\<close>

definition reImportLine :: re where
  "reImportLine =
     Seq [Bol, Lit ''import'', Many 1 isSpace, Many 0 notLineTerminator, Lit ''from'']"

definition reImportFrom :: re where
  "reImportFrom =
     Seq [Lit ''from'', Many 1 isSpace, Atom isQuote, Cap 1 (Many 1 notLineTerminator),
          Atom isQuote]"

text \<open>\<^verbatim>\<open>/config|\.json$|\.yaml$|\.env/\<close> and \<^verbatim>\<open>/['"'](\w+)['"']\s*:/\<close>\<close>

definition reConfigFile :: re where
  "reConfigFile =
     Alt [Lit ''config'', Seq [Lit ''.json'', Eol], Seq [Lit ''.yaml'', Eol], Lit ''.env'']"

definition reConfigKey :: re where
  "reConfigKey =
     Seq [Atom isQuote, Cap 1 (Many 1 isWord), Atom isQuote, Many 0 isSpace, Lit '':'']"

text \<open>\<^verbatim>\<open>/<([A-Z]\w+)/\<close>\<close>

definition reUiTag :: re where
  "reUiTag = Seq [Lit ''<'', Cap 1 (Seq [Atom isUpper, Many 1 isWord])]"

text \<open>\<^verbatim>\<open>/route\.|api\//\<close> and \<^verbatim>\<open>/\.(get|post|put|patch|delete)\(/i\<close>\<close>

definition reApiFile :: re where
  "reApiFile = Alt [Lit ''route.'', Lit ''api/'']"

definition reApiCall :: re where
  "reApiCall =
     Seq [Lit ''.'',
          Cap 1 (Alt [LitI ''get'', LitI ''post'', LitI ''put'', LitI ''patch'', LitI ''delete'']),
          Lit ''('']"

text \<open>The arrays that \<open>analyzeDiffsInDepth\<close> fills and returns, with \<open>mainPurpose\<close>.\<close>

record DiffAnalysis =
  newFunctions :: "string list"
  newClasses :: "string list"
  newComponents :: "string list"
  newImports :: "string list"
  modifiedFunctions :: "string list"
  configChanges :: "string list"
  uiChanges :: "string list"
  apiChanges :: "string list"
  mainPurpose :: string

definition emptyDiffAnalysis :: DiffAnalysis where
  "emptyDiffAnalysis = \<lparr>newFunctions = [], newClasses = [], newComponents = [], newImports = [],
     modifiedFunctions = [], configChanges = [], uiChanges = [], apiChanges = [],
     mainPurpose = []\<rparr>"

text \<open>
  The body of the inner \<open>forEach\<close>, one line of one file's diff, is a sequence of eight
  independent \<open>if\<close> statements; each is a function here, in the order of the source.
\<close>

definition detectFunction :: "string \<Rightarrow> DiffAnalysis \<Rightarrow> DiffAnalysis" where
  "detectFunction content a =
     (if js_match content reFunctionDecl \<noteq> None then
        (case js_match content reFunctionName of
           Some c \<Rightarrow> a\<lparr>newFunctions := newFunctions a @ [group c 1]\<rparr>
         | None \<Rightarrow> a)
      else a)"

definition detectArrow :: "string \<Rightarrow> DiffAnalysis \<Rightarrow> DiffAnalysis" where
  "detectArrow content a =
     (if js_match content reArrowDecl \<noteq> None then
        (case js_match content reConstName of
           Some c \<Rightarrow> a\<lparr>newFunctions := newFunctions a @ [group c 1]\<rparr>
         | None \<Rightarrow> a)
      else a)"

definition detectClass :: "string \<Rightarrow> DiffAnalysis \<Rightarrow> DiffAnalysis" where
  "detectClass content a =
     (if js_match content reClassDecl \<noteq> None then
        (case js_match content reClassName of
           Some c \<Rightarrow> a\<lparr>newClasses := newClasses a @ [group c 1]\<rparr>
         | None \<Rightarrow> a)
      else a)"

definition detectComponent :: "string \<Rightarrow> string \<Rightarrow> DiffAnalysis \<Rightarrow> DiffAnalysis" where
  "detectComponent path content a =
     (if js_match path reUiFile \<noteq> None \<and> js_match content reComponentDecl \<noteq> None then
        (case js_match content reComponentName of
           Some c \<Rightarrow> a\<lparr>newComponents := newComponents a @ [group c 1]\<rparr>
         | None \<Rightarrow> a)
      else a)"

definition detectImport :: "string \<Rightarrow> DiffAnalysis \<Rightarrow> DiffAnalysis" where
  "detectImport content a =
     (if js_match content reImportLine \<noteq> None then
        (case js_match content reImportFrom of
           Some c \<Rightarrow>
             (let pkg = hd (js_split CHR ''/'' (group c 1))
              in if \<not> js_startsWith pkg ''.'' then a\<lparr>newImports := newImports a @ [pkg]\<rparr>
                 else a)
         | None \<Rightarrow> a)
      else a)"

definition detectConfig :: "string \<Rightarrow> string \<Rightarrow> DiffAnalysis \<Rightarrow> DiffAnalysis" where
  "detectConfig path content a =
     (if js_match path reConfigFile \<noteq> None then
        (case js_match content reConfigKey of
           Some c \<Rightarrow> a\<lparr>configChanges := configChanges a @ [group c 1]\<rparr>
         | None \<Rightarrow> a)
      else a)"

definition detectUi :: "string \<Rightarrow> string \<Rightarrow> DiffAnalysis \<Rightarrow> DiffAnalysis" where
  "detectUi path content a =
     (if js_match path reUiFile \<noteq> None \<and> js_match content reUiTag \<noteq> None then
        (case js_match content reUiTag of
           Some c \<Rightarrow> a\<lparr>uiChanges := uiChanges a @ [group c 1]\<rparr>
         | None \<Rightarrow> a)
      else a)"

definition detectApi :: "string \<Rightarrow> string \<Rightarrow> DiffAnalysis \<Rightarrow> DiffAnalysis" where
  "detectApi path content a =
     (if js_match path reApiFile \<noteq> None then
        (if js_match content reApiCall \<noteq> None then
           (case js_match content reApiCall of
              Some c \<Rightarrow> a\<lparr>apiChanges := apiChanges a @ [js_toUpperCase (group c 1)]\<rparr>
            | None \<Rightarrow> a)
         else a)
      else a)"

definition scanLine :: "string \<Rightarrow> DiffAnalysis \<Rightarrow> string \<Rightarrow> DiffAnalysis" where
  "scanLine path a line =
     (if \<not> js_startsWith line ''+'' then a
      else
        let content = js_trim (drop 1 line)
        in detectApi path content
            (detectUi path content
              (detectConfig path content
                (detectImport content
                  (detectComponent path content
                    (detectClass content
                      (detectArrow content
                        (detectFunction content a))))))))"

text \<open>The fold over the lines of every file.\<close>

definition rawSignals :: "GitDiff list \<Rightarrow> DiffAnalysis" where
  "rawSignals fs =
     foldl (\<lambda>acc f. foldl (scanLine (file_name f)) acc (js_split CHR 0x0A (diff f)))
       emptyDiffAnalysis fs"

text \<open>\<open>[...new Set(xs)]\<close>: the distinct values of \<open>xs\<close> in the order of their first occurrence.\<close>

definition uniqueValues :: "string list \<Rightarrow> string list" where
  "uniqueValues xs = rev (remdups (rev xs))"

text \<open>A number inside a template string: its decimal digits.\<close>

fun showNat :: "nat \<Rightarrow> string" where
  "showNat n =
     (if n < 10 then [char_of (48 + n)]
      else showNat (n div 10) @ [char_of (48 + n mod 10)])"

definition choosePurpose :: "DiffAnalysis \<Rightarrow> string" where
  "choosePurpose a =
     (if length (newComponents a) > 3 then
        ''implementing '' @ showNat (length (newComponents a)) @ '' new UI components''
      else if length (newComponents a) > 0 then
        ''adding '' @ js_join '', '' (take 3 (newComponents a)) @ '' component''
          @ (if length (newComponents a) > 1 then ''s'' else '''')
      else if length (newFunctions a) > 5 then
        ''implementing multiple utility functions and helpers''
      else if length (newFunctions a) > 0 then
        ''adding '' @ js_join '', '' (take 3 (newFunctions a)) @ '' function''
          @ (if length (newFunctions a) > 1 then ''s'' else '''')
      else if length (newClasses a) > 0 then
        ''implementing '' @ js_join '', '' (newClasses a) @ '' class''
          @ (if length (newClasses a) > 1 then ''es'' else '''')
      else if length (apiChanges a) > 0 then
        ''adding '' @ js_join '', '' (uniqueValues (apiChanges a)) @ '' API endpoint''
          @ (if length (apiChanges a) > 1 then ''s'' else '''')
      else if length (uiChanges a) > 5 then
        ''enhancing UI with multiple component updates''
      else if length (configChanges a) > 0 then
        ''updating configuration settings''
      else if length (newImports a) > 0 then
        (let uniqueImports = uniqueValues (newImports a)
         in ''integrating '' @ js_join '' and '' (take 2 uniqueImports) @ '' ''
              @ (if length uniqueImports > 2 then ''and other '' else '''') @ ''dependencies'')
      else '''')"

definition analyzeDiffsInDepth :: "StagedChanges \<Rightarrow> DiffAnalysis" where
  "analyzeDiffsInDepth changes =
     (let a = rawSignals (files changes)
      in \<lparr>newFunctions = take 5 (uniqueValues (newFunctions a)),
          newClasses = take 3 (uniqueValues (newClasses a)),
          newComponents = take 5 (uniqueValues (newComponents a)),
          newImports = take 5 (uniqueValues (newImports a)),
          modifiedFunctions = modifiedFunctions a,
          configChanges = take 5 (uniqueValues (configChanges a)),
          uiChanges = take 10 (uniqueValues (uiChanges a)),
          apiChanges = uniqueValues (apiChanges a),
          mainPurpose = choosePurpose a\<rparr>)"

text \<open>The five verbs that \<^verbatim>\<open>/\.(get|post|put|patch|delete)\(/i\<close> can capture, in upper case.\<close>

definition httpVerbs :: "string list" where
  "httpVerbs = [''GET'', ''POST'', ''PUT'', ''PATCH'', ''DELETE'']"

section \<open>Suggestions\<close>

text \<open>
  \<open>CommitMessageSuggestion\<close>, the result unit. The field \<open>type\<close> of the source is called
  \<open>stype\<close> here (\<open>type\<close> is the field of \<open>analysis\<close> above). \<open>scope\<close> and \<open>body\<close> are optional
  (\<open>None\<close> is \<open>undefined\<close>); \<open>confidence\<close> holds the constants 0.9 and 0.85 as fractions.
\<close>

record CommitMessageSuggestion =
  stype :: string
  scope :: "string option"
  subject :: string
  body :: "string option"
  breaking :: bool
  fullMessage :: string
  confidence :: rat

text \<open>The closed set of types, in the order of the header pattern.\<close>

definition commitTypes :: "string list" where
  "commitTypes =
     [''feat'', ''fix'', ''refactor'', ''docs'', ''style'', ''test'', ''chore'', ''perf'', ''ci'',
      ''build'']"

text \<open>
  The fixed template of the specification, \<^verbatim>\<open>type(scope)!: subject\n\nbody\<close>, with the
  scope, the breaking marker and the body present only when set. The program writes
  \<open>fullMessage\<close> with template strings of its own (in \<open>closeSuggestion\<close> and in
  \<open>generateFallbackSuggestions\<close> below); this is what they are compared with.
\<close>

definition headerLine :: "string \<Rightarrow> string option \<Rightarrow> bool \<Rightarrow> string \<Rightarrow> string" where
  "headerLine ty sc br su =
     ty @ (case sc of None \<Rightarrow> [] | Some s \<Rightarrow> if s = [] then [] else ''('' @ s @ '')'')
        @ (if br then ''!'' else []) @ '': '' @ su"

definition renderMessage ::
  "string \<Rightarrow> string option \<Rightarrow> bool \<Rightarrow> string \<Rightarrow> string option \<Rightarrow> string" where
  "renderMessage ty sc br su bo =
     headerLine ty sc br su
       @ (case bo of None \<Rightarrow> [] | Some b \<Rightarrow> if b = [] then [] else [CHR 0x0A, CHR 0x0A] @ b)"

section \<open>Generative response parser\<close>

text \<open>
  \<^verbatim>\<open>/^(feat|fix|refactor|docs|style|test|chore|perf|ci|build)(\(([^)]+)\))?(!)?:\s*(.+)$/i\<close>
\<close>

definition reHeader :: re where
  "reHeader =
     Seq [Bol, Cap 1 (Alt (map LitI commitTypes)),
          Opt (Cap 2 (Seq [Lit ''('', Cap 3 (Many 1 (\<lambda>c. c \<noteq> CHR '')'')), Lit '')''])),
          Opt (Cap 4 (Lit ''!'')), Lit '':'', Many 0 isSpace,
          Cap 5 (Many 1 notLineTerminator), Eol]"

definition stopMarkers :: "string list" where
  "stopMarkers =
     [''Generate a conventional commit'', ''IMPORTANT:'', ''Good example format:'',
      ''Bad example (DO NOT DO THIS):'', ''First line: type(scope):'', ''Format: type(scope):'',
      ''Commit message:'', ''Body (required for multi-file changes):'',
      ''Focus on the MEANING and PURPOSE'']"

text \<open>\<open>currentSuggestion\<close>: the fields the parser reads from a header line.\<close>

record PartialSuggestion =
  p_type :: string
  p_scope :: "string option"
  p_subject :: string
  p_breaking :: bool

text \<open>
  The fields of a header line: \<open>type.toLowerCase()\<close>, \<open>scope?.trim()\<close>, \<open>subject.trim()\<close>
  and \<open>!!breaking || line.includes('BREAKING CHANGE')\<close>; \<open>None\<close> when the line does not match.
\<close>

definition headerFields :: "string \<Rightarrow> PartialSuggestion option" where
  "headerFields line =
     (case js_match line reHeader of
        None \<Rightarrow> None
      | Some c \<Rightarrow>
          Some \<lparr>p_type = js_toLowerCase (group c 1),
                p_scope = map_option js_trim (c 3),
                p_subject = js_trim (group c 5),
                p_breaking = (c 4 \<noteq> None \<or> js_includes line ''BREAKING CHANGE'')\<rparr>)"


definition isMetaCommentary :: "string \<Rightarrow> string \<Rightarrow> bool" where
  "isMetaCommentary subjectText line =
     (js_includes subjectText ''type(scope)'' \<or>
      js_includes subjectText ''brief description'' \<or>
      js_includes subjectText ''what was accomplished'' \<or>
      js_includes (js_toLowerCase line) ''description:'' \<or>
      subjectText = ''improvements'' \<or>
      subjectText = ''updates'')"

definition isInstruction :: "string \<Rightarrow> bool" where
  "isInstruction line =
     (js_includes (js_toLowerCase line) ''commit message'' \<or>
      js_includes (js_toLowerCase line) ''example'' \<or>
      js_includes (js_toLowerCase line) ''format'' \<or>
      js_includes (js_toLowerCase line) ''generate'' \<or>
      js_includes line ''Type:'' \<or>
      js_includes line ''Scope:'' \<or>
      js_includes line ''Description:'' \<or>
      js_includes (js_toLowerCase line) ''what specific improvements'' \<or>
      js_includes (js_toLowerCase line) ''why these changes'' \<or>
      js_includes (js_toLowerCase line) ''key files or components'' \<or>
      js_includes (js_toLowerCase line) ''focus on'')"

text \<open>
  The block that closes a suggestion (it occurs twice in the source, inside the loop and
  after it): nothing is pushed unless there is a current suggestion whose type and subject
  are not empty.
\<close>

definition closeSuggestion ::
  "PartialSuggestion option \<Rightarrow> string list \<Rightarrow> CommitMessageSuggestion list
     \<Rightarrow> CommitMessageSuggestion list" where
  "closeSuggestion cur bodyLines suggestions =
     (case cur of
        None \<Rightarrow> suggestions
      | Some c \<Rightarrow>
          if p_type c \<noteq> [] \<and> p_subject c \<noteq> [] then
            (let body = (if length bodyLines > 0
                         then Some (js_trim (js_join [CHR 0x0A] bodyLines)) else None);
                 fullMessage =
                   p_type c
                     @ (case p_scope c of
                          Some s \<Rightarrow> if s \<noteq> [] then ''('' @ s @ '')'' else []
                        | None \<Rightarrow> [])
                     @ (if p_breaking c then ''!'' else []) @ '': '' @ p_subject c
                     @ (case body of
                          Some b \<Rightarrow> if b \<noteq> [] then [CHR 0x0A, CHR 0x0A] @ b else []
                        | None \<Rightarrow> [])
             in suggestions @
                  [\<lparr>stype = p_type c, scope = p_scope c, subject = p_subject c, body = body,
                    breaking = p_breaking c, fullMessage = fullMessage, confidence = 9 / 10\<rparr>])
          else suggestions)"

text \<open>The variables of the scanning loop.\<close>

record parser_state =
  currentSuggestion :: "PartialSuggestion option"
  bodyLines :: "string list"
  suggestions :: "CommitMessageSuggestion list"

definition parser0 :: parser_state where
  "parser0 = \<lparr>currentSuggestion = None, bodyLines = [], suggestions = []\<rparr>"

text \<open>One iteration of the loop over \<open>relevantLines\<close>.\<close>

definition parseStep :: "parser_state \<Rightarrow> string \<Rightarrow> parser_state" where
  "parseStep st raw =
     (let line = js_trim raw in
      if line = [] then st
      else
        (case headerFields line of
           Some h \<Rightarrow>
             if isMetaCommentary (p_subject h) line then st
             else \<lparr>currentSuggestion = Some h, bodyLines = [],
                    suggestions =
                      closeSuggestion (currentSuggestion st) (bodyLines st) (suggestions st)\<rparr>
         | None \<Rightarrow>
             if currentSuggestion st \<noteq> None then
               (if \<not> isInstruction line then st\<lparr>bodyLines := bodyLines st @ [line]\<rparr> else st)
             else st))"

text \<open>The lines before the first line that contains a stop marker.\<close>

definition relevantLines :: "string \<Rightarrow> string list" where
  "relevantLines text =
     takeWhile (\<lambda>l. \<not> (\<exists>marker \<in> set stopMarkers. js_includes (js_trim l) marker))
       (js_split CHR 0x0A text)"

text \<open>Every suggestion the scan closes, in the order in which it closes them.\<close>

definition closedSuggestions :: "string \<Rightarrow> CommitMessageSuggestion list" where
  "closedSuggestions text =
     (let st = foldl parseStep parser0 (relevantLines text)
      in closeSuggestion (currentSuggestion st) (bodyLines st) (suggestions st))"

text \<open>\<open>parseAIResponse(text, changes)\<close>; the source does not read \<open>changes\<close>.\<close>

definition parseAIResponse :: "string \<Rightarrow> StagedChanges \<Rightarrow> CommitMessageSuggestion list" where
  "parseAIResponse text changes = take 2 (closedSuggestions text)"

section \<open>Heuristic summarizer\<close>

text \<open>
  \<open>generateFallbackSuggestions\<close> calls \<open>generateSmartSubject\<close>, \<open>generateSmartBody\<close> and
  \<open>generateSmartScope\<close> for the three strings of its suggestion. It takes them here from a
  record, so that what is proved of the orchestrator holds whatever these three functions
  compute; the functions of the program are defined below and collected in
  \<open>source_helpers\<close>.
\<close>

record helpers =
  smartSubject :: "StagedChanges \<Rightarrow> analysis \<Rightarrow> DiffAnalysis \<Rightarrow> string"
  smartBody :: "StagedChanges \<Rightarrow> analysis \<Rightarrow> DiffAnalysis \<Rightarrow> string option"
  smartScope :: "StagedChanges \<Rightarrow> analysis \<Rightarrow> string option"

definition generateFallbackSuggestions ::
  "helpers \<Rightarrow> StagedChanges \<Rightarrow> CommitMessageSuggestion list" where
  "generateFallbackSuggestions h changes =
     (let analysis = analyzeChangesForFallback changes;
          diffAnalysis = analyzeDiffsInDepth changes;
          subject = smartSubject h changes analysis diffAnalysis;
          body = smartBody h changes analysis diffAnalysis;
          scope = smartScope h changes analysis;
          fullMessage =
            type analysis
              @ (case scope of
                   Some s \<Rightarrow> if s \<noteq> [] then ''('' @ s @ '')'' else []
                 | None \<Rightarrow> [])
              @ '': '' @ subject
              @ (case body of
                   Some b \<Rightarrow> if b \<noteq> [] then [CHR 0x0A, CHR 0x0A] @ b else []
                 | None \<Rightarrow> [])
      in [\<lparr>stype = type analysis, scope = scope, subject = subject, body = body,
           breaking = False, fullMessage = fullMessage, confidence = 85 / 100\<rparr>])"

section \<open>Helpers of the heuristic summarizer\<close>

text \<open>
  The program multiplies a count by the constants 0.7, 0.6, 0.3 and 0.5 in double
  precision and compares the product with a count. A count \<open>n\<close> is exact as a double, the
  constant is \<open>M / 2 ^ k\<close> for a 53-bit \<open>M\<close>, and the product is the exact product \<open>n * M\<close>
  rounded to 53 significant bits, ties to even, over \<open>2 ^ k\<close>. \<open>round53\<close> is that
  rounding (for counts below \<open>2 ^ 53\<close>); the products are integers too large to be
  computed as unary naturals, hence \<open>int\<close>.
\<close>

function bitLength :: "int \<Rightarrow> nat" where
  "bitLength n = (if n \<le> 0 then 0 else Suc (bitLength (n div 2)))"
  by pat_completeness auto
termination
  by (relation "measure nat") auto

definition round53 :: "int \<Rightarrow> int" where
  "round53 N =
     (let L = bitLength N in
      if L \<le> 53 then N
      else
        (let s = L - 53; q = N div 2 ^ s; r = N mod 2 ^ s; half = 2 ^ (s - 1)
         in (if r > half \<or> (r = half \<and> odd q) then q + 1 else q) * 2 ^ s))"

text \<open>\<open>d > n * 0.7\<close>, with \<open>0.7 = 6305039478318694 / 2 ^ 53\<close> as a double.\<close>

definition gtTimes07 :: "nat \<Rightarrow> nat \<Rightarrow> bool" where
  "gtTimes07 d n = (int d * 2 ^ 53 > round53 (int n * 6305039478318694))"

text \<open>\<open>d > n * 0.6\<close>, with \<open>0.6 = 5404319552844595 / 2 ^ 53\<close> as a double.\<close>

definition gtTimes06 :: "nat \<Rightarrow> nat \<Rightarrow> bool" where
  "gtTimes06 d n = (int d * 2 ^ 53 > round53 (int n * 5404319552844595))"

text \<open>\<open>Math.ceil(n * 0.3)\<close>, with \<open>0.3 = 5404319552844595 / 2 ^ 54\<close> as a double.\<close>

definition ceilTimes03 :: "nat \<Rightarrow> nat" where
  "ceilTimes03 n = nat ((round53 (int n * 5404319552844595) + 2 ^ 54 - 1) div 2 ^ 54)"

text \<open>\<open>d > n * 0.5\<close>: halving a count is exact.\<close>

definition gtTimes05 :: "nat \<Rightarrow> nat \<Rightarrow> bool" where
  "gtTimes05 d n = (2 * d > n)"

text \<open>
  \<open>r.test(s)\<close>, and \<open>s.replace(r, '')\<close> for the patterns below: they end in \<open>$\<close> and match
  at least one character, so with or without the flag \<open>g\<close> at most one match, the leftmost,
  is removed.
\<close>

definition js_test :: "re \<Rightarrow> string \<Rightarrow> bool" where
  "js_test r s = (js_match s r \<noteq> None)"

fun searchSpanFrom :: "re \<Rightarrow> nat \<Rightarrow> string \<Rightarrow> (nat \<times> nat) option" where
  "searchSpanFrom r i s =
     (case rx_match r (i, s, Map.empty) of
        (j, s', caps) # _ \<Rightarrow> Some (i, j)
      | [] \<Rightarrow> (case s of [] \<Rightarrow> None | c # cs \<Rightarrow> searchSpanFrom r (Suc i) cs))"

definition js_remove :: "string \<Rightarrow> re \<Rightarrow> string" where
  "js_remove s r =
     (case searchSpanFrom r 0 s of
        None \<Rightarrow> s
      | Some (i, j) \<Rightarrow> take i s @ drop j s)"

text \<open>\<open>s.split('/').pop()\<close>: the last piece (there is always one).\<close>

definition lastSegment :: "string \<Rightarrow> string" where
  "lastSegment s = last (js_split CHR ''/'' s)"

definition isAlnum :: "char \<Rightarrow> bool" where
  "isAlnum c = (isLower c \<or> isUpper c \<or> isDigit c)"

text \<open>
  \<^verbatim>\<open>s.split(/[^a-zA-Z0-9]+/)\<close>: the pieces between the maximal runs of other characters,
  with an empty piece where the string begins or ends with such a run.
\<close>

function js_split_words :: "string \<Rightarrow> string list" where
  "js_split_words s =
     (let w = takeWhile isAlnum s; rest = dropWhile isAlnum s
      in if rest = [] then [w]
         else w # js_split_words (dropWhile (\<lambda>c. \<not> isAlnum c) rest))"
  by pat_completeness auto
termination
proof (relation "measure length")
  show "wf (measure length)" by simp
next
  fix s w rest
  assume r: "rest = dropWhile isAlnum s" and n: "rest \<noteq> []"
  from n obtain c cs where c: "rest = c # cs" by (cases rest) auto
  from r c have "\<not> isAlnum c" by (metis hd_dropWhile list.sel(1) list.distinct(1))
  then have "dropWhile (\<lambda>c. \<not> isAlnum c) rest = dropWhile (\<lambda>c. \<not> isAlnum c) cs"
    by (simp add: c)
  then have "length (dropWhile (\<lambda>c. \<not> isAlnum c) rest) \<le> length cs"
    by (simp add: length_dropWhile_le)
  also have "length cs < length rest" by (simp add: c)
  also have "length rest \<le> length s" unfolding r by (rule length_dropWhile_le)
  finally show "(dropWhile (\<lambda>c. \<not> isAlnum c) rest, s) \<in> measure length" by simp
qed

text \<open>
  A JavaScript \<open>Map\<close> from strings to counts, in insertion order:
  \<open>m.set(k, (m.get(k) || 0) + n)\<close> keeps the place of a key that is already there.
\<close>

fun mapAdd :: "string \<Rightarrow> nat \<Rightarrow> (string \<times> nat) list \<Rightarrow> (string \<times> nat) list" where
  "mapAdd k n [] = [(k, n)]"
| "mapAdd k n ((k', v) # m) = (if k' = k then (k', v + n) # m else (k', v) # mapAdd k n m)"

text \<open>The patterns of the helpers, each under the source's pattern.\<close>

text \<open>\<^verbatim>\<open>/\.(ts|tsx|js|jsx|md)$/\<close>\<close>

definition reSourceExt :: re where
  "reSourceExt =
     Seq [Lit ''.'', Cap 1 (Alt [Lit ''ts'', Lit ''tsx'', Lit ''js'', Lit ''jsx'', Lit ''md'']), Eol]"

text \<open>\<^verbatim>\<open>/^[A-Z][a-zA-Z0-9]*$/\<close>, \<^verbatim>\<open>/^[A-Z][a-zA-Z0-9]+$/\<close> and \<^verbatim>\<open>/^[A-Z]/\<close>\<close>

definition rePascalCase :: re where
  "rePascalCase = Seq [Bol, Atom isUpper, Many 0 isAlnum, Eol]"

definition rePascalWord :: re where
  "rePascalWord = Seq [Bol, Atom isUpper, Many 1 isAlnum, Eol]"

definition reUpperStart :: re where
  "reUpperStart = Seq [Bol, Atom isUpper]"

text \<open>\<^verbatim>\<open>/\.d\.ts$/\<close>, \<^verbatim>\<open>/\.js\.map$/\<close> and
  \<^verbatim>\<open>/\.(ts|tsx|js|jsx|md|css|scss|map|json)$/\<close>\<close>

definition reDts :: re where
  "reDts = Seq [Lit ''.d.ts'', Eol]"

definition reJsMap :: re where
  "reJsMap = Seq [Lit ''.js.map'', Eol]"

definition reCleanExt :: re where
  "reCleanExt =
     Seq [Lit ''.'',
          Cap 1 (Alt [Lit ''ts'', Lit ''tsx'', Lit ''js'', Lit ''jsx'', Lit ''md'', Lit ''css'',
                      Lit ''scss'', Lit ''map'', Lit ''json'']),
          Eol]"

text \<open>\<^verbatim>\<open>/\.(js|ts|tsx|jsx)$/\<close> and \<^verbatim>\<open>/\.(test|spec)\./\<close>\<close>

definition reJsFile :: re where
  "reJsFile = Seq [Lit ''.'', Cap 1 (Alt [Lit ''js'', Lit ''ts'', Lit ''tsx'', Lit ''jsx'']), Eol]"

definition reTestFile :: re where
  "reTestFile = Seq [Lit ''.'', Cap 1 (Alt [Lit ''test'', Lit ''spec'']), Lit ''.'']"

text \<open>
  The \<open>patterns\<close> table of \<open>analyzeDeletedFiles\<close>, all with the flag \<open>i\<close>:
  \<^verbatim>\<open>/\.test\.|\.spec\./\<close>, \<^verbatim>\<open>/\.md$/\<close>, \<^verbatim>\<open>/component/\<close>,
  \<^verbatim>\<open>/backup|old|deprecated|unused/\<close>, \<^verbatim>\<open>/\.css$|\.scss$/\<close>, \<^verbatim>\<open>/config/\<close>.
\<close>

definition deletionPatterns :: "(re \<times> string) list" where
  "deletionPatterns =
     [(Alt [LitI ''.test.'', LitI ''.spec.''], ''remove test files''),
      (Seq [LitI ''.md'', Eol], ''remove documentation files''),
      (LitI ''component'', ''remove deprecated components''),
      (Alt [LitI ''backup'', LitI ''old'', LitI ''deprecated'', LitI ''unused''],
         ''remove deprecated files''),
      (Alt [Seq [LitI ''.css'', Eol], Seq [LitI ''.scss'', Eol]], ''remove style files''),
      (LitI ''config'', ''remove configuration files'')]"

text \<open>\<open>findCommonWords\<close>\<close>

definition wordsOfFileName :: "string \<Rightarrow> string list" where
  "wordsOfFileName fileName =
     (let baseName = (if lastSegment fileName \<noteq> [] then lastSegment fileName else fileName);
          cleanName = js_remove (js_remove (js_remove baseName reDts) reJsMap) reCleanExt
      in filter (\<lambda>w. length w > 2) (js_split_words cleanName))"

text \<open>The body of \<open>words.forEach\<close>: the two maps \<open>allWords\<close> and \<open>camelCaseWords\<close>.\<close>

definition countWord ::
  "(string \<times> nat) list \<times> (string \<times> nat) list \<Rightarrow> string
     \<Rightarrow> (string \<times> nat) list \<times> (string \<times> nat) list" where
  "countWord maps word =
     (let allWords = mapAdd word 1 (fst maps)
      in if js_test reUpperStart word \<and> length word > 3
         then (allWords, mapAdd word 2 (snd maps))
         else (allWords, snd maps))"

text \<open>
  \<open>Array.prototype.sort\<close> is stable, and the comparator orders by "PascalCase first, then
  higher count first": sorting by count and then, stably, by the PascalCase test gives the
  same list.
\<close>

definition findCommonWords :: "string list \<Rightarrow> string list" where
  "findCommonWords fileNames =
     (let maps = foldl (\<lambda>m fileName. foldl countWord m (wordsOfFileName fileName)) ([], []) fileNames;
          allWords = foldl (\<lambda>m (word, count). mapAdd word count m) (fst maps) (snd maps);
          threshold = max 2 (ceilTimes03 (length fileNames));
          kept = filter (\<lambda>(word, count). count \<ge> threshold) allWords;
          byCount = sort_key (\<lambda>(word, count). - int count) kept;
          sorted = sort_key (\<lambda>(word, count). if js_test rePascalWord word then 0 else (1::nat))
                     byCount
      in map fst sorted)"

text \<open>\<open>findCommonPath\<close>; \<open>None\<close> is \<open>null\<close>.\<close>

fun commonParts :: "string list \<Rightarrow> string list list \<Rightarrow> string list" where
  "commonParts [] ps = []"
| "commonParts (part # rest) ps =
     (if list_all (\<lambda>p. case p of [] \<Rightarrow> False | x # _ \<Rightarrow> x = part) ps
      then part # commonParts rest (map tl ps) else [])"

definition findCommonPath :: "string list \<Rightarrow> string list option" where
  "findCommonPath filePaths =
     (case map (js_split CHR ''/'') filePaths of
        [] \<Rightarrow> None
      | first # others \<Rightarrow>
          (let pathParts = first # others;
               shortestPath = foldl (\<lambda>m curr. if length curr < length m then curr else m)
                                first others;
               common = commonParts (butlast shortestPath) pathParts
           in if length common > 0 then Some common else None))"

text \<open>
  \<open>analyzeDeletedFiles\<close>. Every \<open>return\<close> of the source gives a string, so the result is a
  string here; the caller tests it for truthiness.
\<close>

definition firstPattern :: "string list \<Rightarrow> string option" where
  "firstPattern nonGeneratedFiles =
     map_option snd
       (find (\<lambda>(pattern, description).
                gtTimes05 (length (filter (js_test pattern) nonGeneratedFiles))
                  (length nonGeneratedFiles)
                \<and> length nonGeneratedFiles > 0)
          deletionPatterns)"

definition analyzeDeletedFiles :: "GitDiff list \<Rightarrow> string" where
  "analyzeDeletedFiles deletedFiles =
     (let fileNames = map file_name deletedFiles;
          commonWords = findCommonWords fileNames;
          byWord =
            (case commonWords of
               [] \<Rightarrow> None
             | mainWord # _ \<Rightarrow>
                 if length mainWord > 3 then
                   (let isPascalCase = js_test rePascalCase mainWord;
                        isClass = list_ex (\<lambda>f. js_includes f ''.d.ts'' \<or> js_includes f ''class'')
                                    fileNames
                    in if isPascalCase \<and> isClass then
                         Some (''remove deprecated '' @ mainWord @ '' class and related assets'')
                       else if isPascalCase then
                         Some (''remove '' @ mainWord @ '' component and related files'')
                       else Some (''remove '' @ mainWord @ ''-related files and assets''))
                 else None)
      in case byWord of
           Some r \<Rightarrow> r
         | None \<Rightarrow>
             (case findCommonPath fileNames of
                Some (a # b # rest) \<Rightarrow>
                  ''remove '' @ last (a # b # rest) @ '' module and related files''
              | _ \<Rightarrow>
                  (let nonGeneratedFiles =
                         filter (\<lambda>f. \<not> js_endsWith f ''.d.ts'' \<and> \<not> js_endsWith f ''.map'') fileNames
                   in case firstPattern nonGeneratedFiles of
                        Some description \<Rightarrow> description @ '' and generated assets''
                      | None \<Rightarrow>
                          ''remove unused files ('' @ showNat (length deletedFiles) @ '' files)'')))"

text \<open>\<open>generateSmartSubject\<close>\<close>

definition generateSmartSubject :: "StagedChanges \<Rightarrow> analysis \<Rightarrow> DiffAnalysis \<Rightarrow> string" where
  "generateSmartSubject changes a d =
     (case files changes of
        [file] \<Rightarrow>
          (let stripped = js_remove (lastSegment (file_name file)) reSourceExt;
               fileName = (if stripped \<noteq> [] then stripped else file_name file)
           in if mainPurpose d \<noteq> [] then mainPurpose d
              else if status file = ''A'' then ''add '' @ fileName
              else if status file = ''D'' then ''remove '' @ fileName
              else ''update '' @ fileName)
      | _ \<Rightarrow>
          (let fileCount = length (files changes);
               deletedFiles = filter (\<lambda>f. status f = ''D'') (files changes);
               deletionAnalysis =
                 (if gtTimes07 (length deletedFiles) fileCount
                  then analyzeDeletedFiles deletedFiles else [])
           in if deletionAnalysis \<noteq> [] then deletionAnalysis
              else if mainPurpose d \<noteq> [] then mainPurpose d
              else if category a = ''documentation'' then
                ''update documentation ('' @ showNat fileCount @ '' files)''
              else if category a = ''testing'' then
                ''update tests ('' @ showNat fileCount @ '' files)''
              else if category a = ''configuration'' then ''update configuration files''
              else if category a = ''API'' then ''update API endpoints and handlers''
              else if category a = ''components'' then
                ''update UI components ('' @ showNat fileCount @ '' files)''
              else if category a = ''styling'' then ''update styles and formatting''
              else
                (let adds = totalAdditions (files changes);
                     dels = totalDeletions (files changes)
                 in if adds > dels * 2 then
                      ''add new functionality ('' @ showNat fileCount @ '' files)''
                    else if dels > adds * 2 then
                      ''refactor and cleanup ('' @ showNat fileCount @ '' files)''
                    else ''update multiple files ('' @ showNat fileCount @ '' changes)'')))"

text \<open>\<open>analyzeDeletedFilesForBody\<close>\<close>

definition plural :: "nat \<Rightarrow> string" where
  "plural n = (if n > 1 then ''s'' else [])"

definition analyzeDeletedFilesForBody :: "GitDiff list \<Rightarrow> string list" where
  "analyzeDeletedFilesForBody deletedFiles =
     (let fileNames = map file_name deletedFiles;
          typeDefinitions = filter (\<lambda>f. js_endsWith f ''.d.ts'') fileNames;
          sourceMaps = filter (\<lambda>f. js_endsWith f ''.map'') fileNames;
          jsFiles = filter (\<lambda>f. js_test reJsFile f \<and> \<not> js_endsWith f ''.d.ts'') fileNames;
          docFiles = filter (\<lambda>f. js_endsWith f ''.md'') fileNames;
          testFiles = filter (js_test reTestFile) fileNames;
          commonWords = findCommonWords fileNames
      in case (case commonWords of [] \<Rightarrow> None
               | w # _ \<Rightarrow> if w \<noteq> [] \<and> length w > 3 then Some w else None) of
           Some mainEntity \<Rightarrow>
             (let isPascalCase = js_test rePascalCase mainEntity;
                  isClass = list_ex (\<lambda>f. js_includes f ''.d.ts'') fileNames;
                  fileTypes = (if length jsFiles > 0 then [''.js/.ts''] else [])
                              @ (if length typeDefinitions > 0 then [''.d.ts''] else [])
                              @ (if length sourceMaps > 0 then [''source maps''] else []);
                  first =
                    (if isPascalCase \<and> isClass then
                       ''- Removed the unused `'' @ mainEntity @ ''` class and its corresponding ''
                         @ js_join '', '' fileTypes @ '' files''
                     else if isPascalCase then
                       ''- Removed the `'' @ mainEntity @ ''` component and its associated ''
                         @ js_join '', '' fileTypes @ '' files''
                     else
                       ''- Removed '' @ mainEntity @ ''-related implementation files (''
                         @ js_join '', '' fileTypes @ '')'')
              in [first]
                 @ (if length typeDefinitions > 0 \<or> length sourceMaps > 0 then
                      [''- Cleaned up associated imports and dependencies related to the removed functionality'']
                    else [])
                 @ (if length docFiles > 0 then
                      [''- Removed documentation files for the deprecated '' @ mainEntity
                         @ '' functionality'']
                    else []))
         | None \<Rightarrow>
             (let descriptions =
                    (if length jsFiles > 0 then
                       [showNat (length jsFiles) @ '' source file'' @ plural (length jsFiles)]
                     else [])
                    @ (if length typeDefinitions > 0 then
                         [showNat (length typeDefinitions) @ '' type definition''
                            @ plural (length typeDefinitions)]
                       else [])
                    @ (if length sourceMaps > 0 then
                         [showNat (length sourceMaps) @ '' source map'' @ plural (length sourceMaps)]
                       else [])
              in (if length descriptions > 0 then
                    [''- Removed unused files: '' @ js_join '', '' descriptions]
                  else [])
                 @ (if length docFiles > 0 then
                      [''- Cleaned up '' @ showNat (length docFiles) @ '' documentation file''
                         @ plural (length docFiles)]
                    else [])
                 @ (if length testFiles > 0 then
                      [''- Removed '' @ showNat (length testFiles) @ '' test file''
                         @ plural (length testFiles)]
                    else [])))"

text \<open>\<open>generateWhyItMatters\<close>\<close>

definition generateWhyItMatters :: "string \<Rightarrow> DiffAnalysis \<Rightarrow> string" where
  "generateWhyItMatters cat d =
     (if cat = ''components'' \<or> length (newComponents d) > 0 then ''Type: feat | Confidence: 85%''
      else if cat = ''API'' \<or> length (apiChanges d) > 0 then ''Type: feat | Confidence: 90%''
      else if cat = ''testing'' then ''Type: test | Confidence: 95%''
      else if cat = ''documentation'' then ''Type: docs | Confidence: 95%''
      else if cat = ''configuration'' then ''Type: chore | Confidence: 90%''
      else if length (newClasses d) > 0 \<or> length (newFunctions d) > 0 then
        ''Type: feat | Confidence: 85%''
      else [])"

text \<open>\<open>generateSmartBody\<close>; \<open>None\<close> is \<open>undefined\<close>.\<close>

definition namesOrCount :: "string \<Rightarrow> string \<Rightarrow> GitDiff list \<Rightarrow> string list" where
  "namesOrCount named counted fs =
     (if length fs > 0 then
        (if length fs \<le> 3 then
           [named @ js_join '', '' (map (\<lambda>f. lastSegment (file_name f)) fs)]
         else [counted])
      else [])"

definition generateSmartBody ::
  "StagedChanges \<Rightarrow> analysis \<Rightarrow> DiffAnalysis \<Rightarrow> string option" where
  "generateSmartBody changes a d =
     (if length (files changes) \<le> 1 then None
      else
        (let specific =
               (if length (newComponents d) > 0 then
                  [''- Implemented new components: '' @ js_join '', '' (take 3 (newComponents d))
                     @ (if length (newComponents d) > 3
                        then '' and '' @ showNat (length (newComponents d) - 3) @ '' more''
                        else [])]
                else [])
               @ (if length (newClasses d) > 0 then
                    [''- Added '' @ js_join '', '' (newClasses d) @ '' class''
                       @ (if length (newClasses d) > 1 then ''es'' else [])
                       @ '' for improved architecture'']
                  else [])
               @ (if length (newFunctions d) > 0 \<and> length (newComponents d) = 0 then
                    [''- Implemented helper functions: '' @ js_join '', '' (take 3 (newFunctions d))
                       @ (if length (newFunctions d) > 3
                          then '' and '' @ showNat (length (newFunctions d) - 3) @ '' more utilities''
                          else [])]
                  else [])
               @ (if length (newImports d) > 0 then
                    [''- Integrated new dependencies: '' @ js_join '', '' (take 3 (newImports d))
                       @ (if length (newImports d) > 3
                          then '' and '' @ showNat (length (newImports d) - 3) @ '' others''
                          else [])]
                  else [])
               @ (if length (configChanges d) > 0 then
                    [''- Updated configuration settings for ''
                       @ js_join '', '' (take 3 (configChanges d))]
                  else [])
               @ (if length (apiChanges d) > 0 then
                    [''- Added '' @ js_join '', '' (apiChanges d) @ '' API endpoint''
                       @ plural (length (apiChanges d))]
                  else [])
               @ (if length (uiChanges d) > 5 \<and> length (newComponents d) = 0 then
                    [''- Enhanced UI with '' @ showNat (length (uiChanges d)) @ '' component updates'']
                  else []);
             added = filter (\<lambda>f. status f = ''A'') (files changes);
             modified = filter (\<lambda>f. status f = ''M'') (files changes);
             deleted = filter (\<lambda>f. status f = ''D'') (files changes);
             bullets =
               (if length specific = 0 then
                  (if length deleted > 0 then
                     (let deletedAnalysis = analyzeDeletedFilesForBody deleted
                      in if length deletedAnalysis > 0 then deletedAnalysis
                         else if length deleted \<le> 3 then
                           [''- Removed: ''
                              @ js_join '', '' (map (\<lambda>f. lastSegment (file_name f)) deleted)]
                         else [''- Removed '' @ showNat (length deleted) @ '' files''])
                   else [])
                  @ namesOrCount ''- Added: ''
                      (''- Added '' @ showNat (length added) @ '' new files'') added
                  @ namesOrCount ''- Modified: ''
                      (''- Modified '' @ showNat (length modified) @ '' existing files'') modified
                else
                  (let fileParts =
                         (if length added > 0 then [showNat (length added) @ '' added''] else [])
                         @ (if length modified > 0 then [showNat (length modified) @ '' modified'']
                            else [])
                         @ (if length deleted > 0 then [showNat (length deleted) @ '' deleted'']
                            else [])
                   in specific
                      @ (if length fileParts > 0 then [''- Files: '' @ js_join '', '' fileParts]
                         else [])));
             total = ''- Total: +'' @ showNat (totalAdditions (files changes)) @ '' -''
                       @ showNat (totalDeletions (files changes)) @ '' lines'';
             whyItMatters = generateWhyItMatters (category a) d;
             everything = bullets @ [total]
                          @ (if whyItMatters \<noteq> [] then [[CHR 0x0A] @ ''   '' @ whyItMatters]
                             else [])
         in if length everything > 0 then Some (js_join [CHR 0x0A] everything) else None))"

text \<open>
  \<open>findMostCommon\<close> counts in a plain object. Reading \<open>counts[str]\<close> for a name that
  \<open>Object.prototype\<close> defines gives an inherited function or object, so the stored value
  is a string, never greater than a number: such a name cannot become the most common
  one. \<open>for ... in\<close> visits the keys that are array indices first, in ascending order,
  and then the other keys in the order of insertion.
\<close>

definition prototypeKeys :: "string list" where
  "prototypeKeys =
     [''constructor'', ''__defineGetter__'', ''__defineSetter__'', ''hasOwnProperty'',
      ''__lookupGetter__'', ''__lookupSetter__'', ''isPrototypeOf'', ''propertyIsEnumerable'',
      ''toString'', ''valueOf'', ''__proto__'', ''toLocaleString'']"

definition arrayIndex :: "string \<Rightarrow> int option" where
  "arrayIndex s =
     (if s \<noteq> [] \<and> list_all isDigit s \<and> (s = ''0'' \<or> hd s \<noteq> CHR ''0'') then
        (let v = foldl (\<lambda>acc c. acc * 10 + (of_char c - 48)) 0 s
         in if v \<le> 4294967294 then Some v else None)
      else None)"

definition forInOrder :: "(string \<times> nat) list \<Rightarrow> (string \<times> nat) list" where
  "forInOrder counts =
     sort_key (\<lambda>(k, v). case arrayIndex k of Some i \<Rightarrow> i | None \<Rightarrow> 0)
       (filter (\<lambda>(k, v). arrayIndex k \<noteq> None) counts)
     @ filter (\<lambda>(k, v). arrayIndex k = None) counts"

definition findMostCommon :: "string list \<Rightarrow> string option" where
  "findMostCommon strings =
     (let counts = foldl (\<lambda>m str. if str \<in> set prototypeKeys then m else mapAdd str 1 m) []
                     strings;
          best = foldl (\<lambda>(maxCount, mostCommon) (str, n).
                          if n > maxCount then (n, str) else (maxCount, mostCommon))
                   (0, []) (forInOrder counts)
      in if snd best \<noteq> [] then Some (snd best) else None)"

text \<open>\<open>generateSmartScope\<close>\<close>

definition generateSmartScope :: "StagedChanges \<Rightarrow> analysis \<Rightarrow> string option" where
  "generateSmartScope changes a =
     (if category a = ''API'' then Some ''api''
      else if category a = ''components'' then Some ''ui''
      else if category a = ''testing'' then Some ''tests''
      else if category a = ''cli'' then Some ''cli''
      else if category a = ''build'' then Some ''build''
      else
        (let directories =
               map (\<lambda>parts. parts ! (length parts - 2))
                 (filter (\<lambda>parts. length parts > 1)
                    (map (\<lambda>f. js_split CHR ''/'' (file_name f)) (files changes)));
             commonDir = findMostCommon directories;
             libFiles = length (filter (\<lambda>f. js_includes (file_name f) ''/lib/''
                                            \<or> js_startsWith (file_name f) ''lib/'')
                                  (files changes))
         in case (case commonDir of
                    Some c \<Rightarrow> if length c > 1 \<and> c \<noteq> ''src'' \<and> c \<noteq> ''lib'' then Some c else None
                  | None \<Rightarrow> None) of
              Some c \<Rightarrow> Some c
            | None \<Rightarrow> if gtTimes06 libFiles (length (files changes)) then Some ''lib'' else None))"

text \<open>The three helpers of the program.\<close>

definition source_helpers :: helpers where
  "source_helpers =
     \<lparr>smartSubject = generateSmartSubject, smartBody = generateSmartBody,
      smartScope = generateSmartScope\<rparr>"

section \<open>Suggestion orchestrator\<close>

text \<open>
  A JavaScript \<open>Error\<close> with its message. Code that can throw returns \<open>error + 'a\<close>; a
  \<open>try\<close>/\<open>catch\<close> is a case distinction on that sum.
\<close>

datatype error = Error string

text \<open>
  The external generative model, as far as one run sees it: the call \<open>this.model(prompt, ...)\<close>
  resolves with a generated text (\<open>result[0]?.generated_text || ''\<close>), rejects with an
  error, or is still pending when the timer of \<open>withTimeout\<close> fires.
\<close>

datatype model_call = Resolves string | Rejects string | Pending

text \<open>
  What a run finds around it: whether \<open>AI_COMMIT_SKIP_AI\<close> is \<open>'true'\<close>, and what loading
  the pipeline gives (\<open>None\<close>: the load throws; \<open>Some m\<close>: a model that answers the call of
  this run as \<open>m\<close>).
\<close>

record environment =
  skipEnv :: bool
  pipeline :: "model_call option"

text \<open>The fields of \<open>AICommitAssistant\<close>.\<close>

record assistant =
  modelId :: string
  model :: "model_call option"
  modelLoaded :: bool

text \<open>\<open>loadModel\<close> catches the failure of the load itself and leaves \<open>modelLoaded\<close> false.\<close>

definition loadModel :: "environment \<Rightarrow> assistant \<Rightarrow> assistant" where
  "loadModel env a =
     (if modelLoaded a then a
      else (case pipeline env of
              Some m \<Rightarrow> a\<lparr>model := Some m, modelLoaded := True\<rparr>
            | None \<Rightarrow> a\<lparr>modelLoaded := False\<rparr>))"

text \<open>
  \<open>generateAIBasedSuggestions\<close>: build the prompt, await the model, parse its text. The
  prompt is a string built from the change set and does not decide what the model answers
  here, since the answer is given by \<open>model_call\<close>. \<open>None\<close> is a promise that has not
  settled when the timer fires.
\<close>

definition generateAIBasedSuggestions ::
  "model_call \<Rightarrow> StagedChanges \<Rightarrow> (error + CommitMessageSuggestion list) option" where
  "generateAIBasedSuggestions m changes =
     (case m of
        Pending \<Rightarrow> None
      | Rejects msg \<Rightarrow> Some (Inl (Error msg))
      | Resolves generatedText \<Rightarrow> Some (Inr (parseAIResponse generatedText changes)))"

text \<open>
  \<open>withTimeout\<close>: the race of the promise against the timer. The promise wins when it has
  settled, with its value or its error; otherwise the timer rejects with \<open>errorMessage\<close>.
\<close>

definition withTimeout :: "(error + 'a) option \<Rightarrow> string \<Rightarrow> error + 'a" where
  "withTimeout promise errorMessage =
     (case promise of
        Some r \<Rightarrow> r
      | None \<Rightarrow> Inl (Error errorMessage))"

text \<open>
  The \<open>try\<close> block of \<open>generateCommitMessage\<close>: \<open>Inr (Some s)\<close> is \<open>return aiSuggestions\<close>,
  \<open>Inr None\<close> is falling out of the block, \<open>Inl e\<close> is an exception on its way to \<open>catch\<close>.
  The second component is the assistant after the block.
\<close>

definition tryGenerative ::
  "environment \<Rightarrow> assistant \<Rightarrow> StagedChanges
     \<Rightarrow> (error + CommitMessageSuggestion list option) \<times> assistant" where
  "tryGenerative env a changes =
     (let a1 = (if \<not> modelLoaded a then loadModel env a else a) in
      case (modelLoaded a1, model a1) of
        (True, Some m) \<Rightarrow>
          (case withTimeout (generateAIBasedSuggestions m changes) ''AI generation timed out'' of
             Inl e \<Rightarrow> (Inl e, a1)
           | Inr aiSuggestions \<Rightarrow>
               if length aiSuggestions > 0 then (Inr (Some aiSuggestions), a1)
               else (Inr None, a1))
      | _ \<Rightarrow> (Inr None, a1))"

text \<open>
  \<open>generateCommitMessage\<close>. The \<open>catch\<close> block only writes a warning, so both an exception
  and falling out of the \<open>try\<close> block lead to the heuristic suggestions. The result is
  \<open>Inl\<close> when an exception leaves the function.
\<close>

definition generateCommitMessage ::
  "helpers \<Rightarrow> environment \<Rightarrow> assistant \<Rightarrow> StagedChanges
     \<Rightarrow> (error + CommitMessageSuggestion list) \<times> assistant" where
  "generateCommitMessage h env a changes =
     (let skipAI = (skipEnv env \<or> modelId a = ''none'') in
      if skipAI then (Inr (generateFallbackSuggestions h changes), a)
      else
        (case tryGenerative env a changes of
           (Inr (Some aiSuggestions), a1) \<Rightarrow> (Inr aiSuggestions, a1)
         | (Inr None, a1) \<Rightarrow> (Inr (generateFallbackSuggestions h changes), a1)
         | (Inl e, a1) \<Rightarrow> (Inr (generateFallbackSuggestions h changes), a1)))"

text \<open>
  For the statements about the orchestrator: the generative path fails when there is no
  model to call (the load failed), when the call rejects, when it is still pending at the
  timeout, or when the parser finds no suggestion in the generated text.
\<close>

definition modelInUse :: "environment \<Rightarrow> assistant \<Rightarrow> model_call option" where
  "modelInUse env a = (if modelLoaded a then model a else pipeline env)"

definition generativeFailure :: "environment \<Rightarrow> assistant \<Rightarrow> StagedChanges \<Rightarrow> bool" where
  "generativeFailure env a changes =
     (case modelInUse env a of
        None \<Rightarrow> True
      | Some Pending \<Rightarrow> True
      | Some (Rejects msg) \<Rightarrow> True
      | Some (Resolves generatedText) \<Rightarrow> parseAIResponse generatedText changes = [])"

section \<open>Version-control adapter\<close>

text \<open>
  What \<open>getStagedChanges\<close> reads from the \<open>simple-git\<close> library: the result of
  \<open>git.status()\<close> (the staged paths, and for every changed file its path and index
  status), or the error it throws; and for every path the text of
  \<open>git diff --cached\<close>, or the error it throws.
\<close>

record FileStatus =
  fs_path :: string
  fs_index :: string

record StatusResult =
  staged :: "string list"
  status_files :: "FileStatus list"

record git =
  git_status :: "error + StatusResult"
  git_diff :: "string \<Rightarrow> error + string"

text \<open>\<open>status.files.find(f => f.path === file)?.index || 'M'\<close>\<close>

definition indexOrM :: "FileStatus list \<Rightarrow> string \<Rightarrow> string" where
  "indexOrM fs file =
     (case find (\<lambda>f. fs_path f = file) fs of
        Some f \<Rightarrow> if fs_index f \<noteq> [] then fs_index f else ''M''
      | None \<Rightarrow> ''M'')"

text \<open>The entry pushed for a file whose diff was read (the array \<open>diffs\<close> of the source is \<open>entries\<close> here).\<close>

definition diffEntry :: "FileStatus list \<Rightarrow> string \<Rightarrow> string \<Rightarrow> GitDiff" where
  "diffEntry fs file d =
     (let diffLines = js_split CHR 0x0A d
      in \<lparr>file_name = file, status = indexOrM fs file,
          additions = length (filter (\<lambda>line. js_startsWith line ''+'') diffLines),
          deletions = length (filter (\<lambda>line. js_startsWith line ''-'') diffLines),
          diff = d\<rparr>)"

text \<open>
  The body of the loop over the staged files, in the version of
  \<^verbatim>\<open>src/unnamed/part_003\<close> (lines 48--80): when the diff of a file cannot be read, a
  placeholder with zero counts is pushed if the file is found in \<open>status.files\<close>.
\<close>

definition stagedStep :: "FileStatus list \<Rightarrow> (string \<Rightarrow> error + string) \<Rightarrow> GitDiff list \<Rightarrow> string
    \<Rightarrow> GitDiff list" where
  "stagedStep fs gd entries file =
     (case gd file of
        Inr d \<Rightarrow> entries @ [diffEntry fs file d]
      | Inl e \<Rightarrow>
          (case find (\<lambda>f. fs_path f = file) fs of
             Some fileStatus \<Rightarrow>
               entries @ [\<lparr>file_name = file,
                          status = (if fs_index fileStatus \<noteq> [] then fs_index fileStatus else ''M''),
                          additions = 0, deletions = 0,
                          diff = ''// Unable to retrieve diff for '' @ file\<rparr>]
           | None \<Rightarrow> entries))"

text \<open>
  The same loop body in the version of \<^verbatim>\<open>src/unnamed/part_004\<close> (lines 48--65): the
  \<open>catch\<close> block only writes a warning.
\<close>

definition stagedStep_part_004 ::
  "FileStatus list \<Rightarrow> (string \<Rightarrow> error + string) \<Rightarrow> GitDiff list \<Rightarrow> string \<Rightarrow> GitDiff list" where
  "stagedStep_part_004 fs gd entries file =
     (case gd file of
        Inr d \<Rightarrow> entries @ [diffEntry fs file d]
      | Inl e \<Rightarrow> entries)"

definition summaryOf :: "GitDiff list \<Rightarrow> string" where
  "summaryOf entries =
     showNat (length entries) @ '' file(s) changed, ''
       @ showNat (foldl (\<lambda>sum d. sum + additions d) 0 entries) @ '' insertions(+), ''
       @ showNat (foldl (\<lambda>sum d. sum + deletions d) 0 entries) @ '' deletions(-)''"

text \<open>
  \<open>getStagedChanges\<close>, with the loop body as a parameter since the rest of the two versions
  is the same. An error of \<open>git.status()\<close> is thrown again with a longer message.
\<close>

definition getStagedChangesWith ::
  "(FileStatus list \<Rightarrow> (string \<Rightarrow> error + string) \<Rightarrow> GitDiff list \<Rightarrow> string \<Rightarrow> GitDiff list)
     \<Rightarrow> git \<Rightarrow> error + StagedChanges" where
  "getStagedChangesWith step g =
     (case git_status g of
        Inl (Error msg) \<Rightarrow> Inl (Error (''Failed to get staged changes: Error: '' @ msg))
      | Inr st \<Rightarrow>
          if length (staged st) = 0 then
            Inr \<lparr>files = [], summary = ''No staged changes found'', hasChanges = False\<rparr>
          else
            (let entries = foldl (step (status_files st) (git_diff g)) [] (staged st)
             in Inr \<lparr>files = entries, summary = summaryOf entries, hasChanges = True\<rparr>))"

definition getStagedChanges :: "git \<Rightarrow> error + StagedChanges" where
  "getStagedChanges g = getStagedChangesWith stagedStep g"

definition getStagedChanges_part_004 :: "git \<Rightarrow> error + StagedChanges" where
  "getStagedChanges_part_004 g = getStagedChangesWith stagedStep_part_004 g"

section \<open>Result cache of the command line\<close>

text \<open>
  The cache file of the command-line front end: absent, unreadable (reading or
  \<open>JSON.parse\<close> throws), or an entry \<open>{suggestions, changesSummary, timestamp}\<close>. Times are
  milliseconds as \<open>Date.now()\<close> gives them.
\<close>

record SuggestionCache =
  cached :: "CommitMessageSuggestion list"
  changesSummary :: string
  timestamp :: int

datatype cache_file = Absent | Unreadable | Entry SuggestionCache

definition loadCache :: "int \<Rightarrow> cache_file \<Rightarrow> SuggestionCache option" where
  "loadCache now file =
     (case file of
        Entry cache \<Rightarrow> if now - timestamp cache < 5 * 60 * 1000 then Some cache else None
      | _ \<Rightarrow> None)"

text \<open>\<open>saveCache\<close>; a failure to write is ignored and leaves the file as it was.\<close>

definition saveCache ::
  "bool \<Rightarrow> int \<Rightarrow> CommitMessageSuggestion list \<Rightarrow> string \<Rightarrow> cache_file \<Rightarrow> cache_file" where
  "saveCache writable now ss s file =
     (if writable then Entry \<lparr>cached = ss, changesSummary = s, timestamp = now\<rparr> else file)"

text \<open>
  The part of \<open>commit\<close> that chooses the suggestions (lines 152--173 of
  \<^verbatim>\<open>src/unnamed/part_001\<close>): from the cache, or generated and saved. \<open>loadTime\<close> and
  \<open>saveTime\<close> are the two readings of the clock. The result says where the suggestions
  come from, and gives the cache file and the assistant afterwards.
\<close>

datatype origin = FromCache | Generated

record commit_run =
  helpers_used :: helpers
  run_env :: environment
  loadTime :: int
  saveTime :: int
  writable :: bool

definition chooseSuggestions ::
  "commit_run \<Rightarrow> assistant \<Rightarrow> cache_file \<Rightarrow> StagedChanges
     \<Rightarrow> origin \<times> (error + CommitMessageSuggestion list) \<times> cache_file \<times> assistant" where
  "chooseSuggestions r a file changes =
     (case loadCache (loadTime r) file of
        Some cache \<Rightarrow>
          if changesSummary cache = summary changes \<and> length (cached cache) > 0
          then (FromCache, Inr (cached cache), file, a)
          else
            (case generateCommitMessage (helpers_used r) (run_env r) a changes of
               (Inr ss, a1) \<Rightarrow>
                 (Generated, Inr ss, saveCache (writable r) (saveTime r) ss (summary changes) file, a1)
             | (Inl e, a1) \<Rightarrow> (Generated, Inl e, file, a1))
      | None \<Rightarrow>
          (case generateCommitMessage (helpers_used r) (run_env r) a changes of
             (Inr ss, a1) \<Rightarrow>
               (Generated, Inr ss, saveCache (writable r) (saveTime r) ss (summary changes) file, a1)
           | (Inl e, a1) \<Rightarrow> (Generated, Inl e, file, a1)))"

section \<open>Example inputs\<close>

text \<open>Concrete inputs at which the properties below are evaluated.\<close>

text \<open>A route written in TSX: its path is under \<^verbatim>\<open>/api/\<close> and ends in \<^verbatim>\<open>.tsx\<close>.\<close>

definition route_tsx :: StagedChanges where
  "route_tsx =
     \<lparr>files = [\<lparr>file_name = ''src/app/api/og/route.tsx'', status = ''M'', additions = 10,
                deletions = 2, diff = []\<rparr>],
      summary = ''1 file(s) changed, 10 insertions(+), 2 deletions(-)'', hasChanges = True\<rparr>"

text \<open>A class declared twice and three more classes, in one file.\<close>

definition five_class_lines :: StagedChanges where
  "five_class_lines =
     \<lparr>files = [\<lparr>file_name = ''src/lib/shapes.ts'', status = ''A'', additions = 5, deletions = 0,
         diff = js_join [CHR 0x0A]
                  [''+class Circle {}'', ''+class Circle {}'', ''+class Square {}'',
                   ''+class Line {}'', ''+class Point {}'']\<rparr>],
      summary = ''1 file(s) changed, 5 insertions(+), 0 deletions(-)'', hasChanges = True\<rparr>"

definition api_file_a :: GitDiff where
  "api_file_a = \<lparr>file_name = ''src/api/a.ts'', status = ''M'', additions = 1, deletions = 0, diff = ''''\<rparr>"

definition api_file_b :: GitDiff where
  "api_file_b = \<lparr>file_name = ''src/api/b.ts'', status = ''M'', additions = 1, deletions = 0, diff = ''''\<rparr>"

definition changes_ab :: StagedChanges where
  "changes_ab = \<lparr>files = [api_file_a, api_file_b],
     summary = ''2 file(s) changed, 2 insertions(+), 0 deletions(-)'', hasChanges = True\<rparr>"

definition changes_ba :: StagedChanges where
  "changes_ba = \<lparr>files = [api_file_b, api_file_a],
     summary = ''2 file(s) changed, 2 insertions(+), 0 deletions(-)'', hasChanges = True\<rparr>"

text \<open>A page that adds six different tags, one per line.\<close>

definition six_tags :: StagedChanges where
  "six_tags =
     \<lparr>files = [\<lparr>file_name = ''src/app/page.tsx'', status = ''M'', additions = 6, deletions = 0,
         diff = js_join [CHR 0x0A]
                  [''+<Header />'', ''+<Nav />'', ''+<Hero />'', ''+<Card />'', ''+<List />'',
                   ''+<Footer />'']\<rparr>],
      summary = ''1 file(s) changed, 6 insertions(+), 0 deletions(-)'', hasChanges = True\<rparr>"


text \<open>A generated text with three commit headers, the second with body lines.\<close>

definition three_headers :: string where
  "three_headers =
     js_join [CHR 0x0A]
       [''Here is the message'', ''feat(api)!: add users endpoint'', ''- adds POST handler'',
        '''', ''Fix: repair login'', ''docs: describe setup'']"

text \<open>
  An assistant that has not loaded its model, and environments in which the model call
  stays pending, or answers.
\<close>

definition fresh_assistant :: assistant where
  "fresh_assistant =
     \<lparr>modelId = ''meta-llama/Llama-3.2-1B-Instruct'', model = None, modelLoaded = False\<rparr>"

definition env_pending :: environment where
  "env_pending = \<lparr>skipEnv = False, pipeline = Some Pending\<rparr>"

definition env_answers :: environment where
  "env_answers = \<lparr>skipEnv = False, pipeline = Some (Resolves three_headers)\<rparr>"

text \<open>
  One staged file, a deleted one, whose \<open>git diff --cached\<close> fails (without the \<open>--\<close>
  separator git does not find the path in the working tree).
\<close>

definition one_failing_diff :: git where
  "one_failing_diff =
     \<lparr>git_status = Inr \<lparr>staged = [''old.ts''],
                          status_files = [\<lparr>fs_path = ''old.ts'', fs_index = ''D''\<rparr>]\<rparr>,
      git_diff = (\<lambda>file. Inl (Error ''ambiguous argument: unknown revision or path''))\<rparr>"

text \<open>A run of \<open>commit\<close> five minutes after a review of the same changes, and one just before.\<close>

definition cache_of_review :: cache_file where
  "cache_of_review =
     Entry \<lparr>cached = generateFallbackSuggestions source_helpers six_tags,
            changesSummary = summary six_tags, timestamp = 1000000\<rparr>"

definition run_late :: commit_run where
  "run_late = \<lparr>helpers_used = source_helpers, run_env = env_pending, loadTime = 1300000,
     saveTime = 1300050, writable = True\<rparr>"

definition run_in_time :: commit_run where
  "run_in_time = \<lparr>helpers_used = source_helpers, run_env = env_pending, loadTime = 1299999,
     saveTime = 1300050, writable = True\<rparr>"

chapter \<open>Properties\<close>

section \<open>Properties of the classifier\<close>

lemma totalAdditions_sum: "totalAdditions fs = sum_list (map additions fs)"
proof -
  have "foldl (\<lambda>sum f. sum + additions f) a fs = a + sum_list (map additions fs)" for a
    by (induction fs arbitrary: a) simp_all
  then show ?thesis by (simp add: totalAdditions_def)
qed

lemma totalDeletions_sum: "totalDeletions fs = sum_list (map deletions fs)"
proof -
  have "foldl (\<lambda>sum f. sum + deletions f) a fs = a + sum_list (map deletions fs)" for a
    by (induction fs arbitrary: a) simp_all
  then show ?thesis by (simp add: totalDeletions_def)
qed

text \<open>One step of the scan, read through \<open>fileKind\<close> and \<open>notable\<close>.\<close>

lemma scanFile_kind:
  "scanFile s f =
     s\<lparr>hasTests := hasTests s \<or> fileKind (file_name f) = KTest,
       hasDocs := hasDocs s \<or> fileKind (file_name f) = KDocs,
       hasConfig := hasConfig s \<or> fileKind (file_name f) = KConfig,
       hasBuild := hasBuild s \<or> fileKind (file_name f) = KBuild,
       hasComponents := hasComponents s \<or> fileKind (file_name f) = KComponent,
       hasAPI := hasAPI s \<or> fileKind (file_name f) = KAPI,
       hasStyles := hasStyles s \<or> fileKind (file_name f) = KStyle,
       hasCLI := hasCLI s \<or> fileKind (file_name f) = KCLI,
       pushed := pushed s @ (if notable f then [file_name f] else [])\<rparr>"
  unfolding scanFile_def fileKind_def notable_def Let_def
  by (simp split: if_splits)

lemma foldl_scanFile:
  "hasTests (foldl scanFile s fs) = (hasTests s \<or> present KTest fs)"
  "hasDocs (foldl scanFile s fs) = (hasDocs s \<or> present KDocs fs)"
  "hasConfig (foldl scanFile s fs) = (hasConfig s \<or> present KConfig fs)"
  "hasBuild (foldl scanFile s fs) = (hasBuild s \<or> present KBuild fs)"
  "hasComponents (foldl scanFile s fs) = (hasComponents s \<or> present KComponent fs)"
  "hasAPI (foldl scanFile s fs) = (hasAPI s \<or> present KAPI fs)"
  "hasStyles (foldl scanFile s fs) = (hasStyles s \<or> present KStyle fs)"
  "hasCLI (foldl scanFile s fs) = (hasCLI s \<or> present KCLI fs)"
  "pushed (foldl scanFile s fs) = pushed s @ map file_name (filter notable fs)"
  by (induction fs arbitrary: s; simp add: scanFile_kind present_def disj_assoc)+

lemma scan_flags:
  "hasTests (foldl scanFile scan0 fs) = present KTest fs"
  "hasDocs (foldl scanFile scan0 fs) = present KDocs fs"
  "hasConfig (foldl scanFile scan0 fs) = present KConfig fs"
  "hasBuild (foldl scanFile scan0 fs) = present KBuild fs"
  "hasComponents (foldl scanFile scan0 fs) = present KComponent fs"
  "hasAPI (foldl scanFile scan0 fs) = present KAPI fs"
  "hasStyles (foldl scanFile scan0 fs) = present KStyle fs"
  "hasCLI (foldl scanFile scan0 fs) = present KCLI fs"
  "pushed (foldl scanFile scan0 fs) = map file_name (filter notable fs)"
  by (simp_all add: foldl_scanFile scan0_def)

text \<open>Type and category as a cascade over the kinds of file that are present.\<close>

lemma type_category_cascade:
  "(type (analyzeChangesForFallback changes), category (analyzeChangesForFallback changes)) =
     (let fs = files changes in
      if present KTest fs then (''test'', ''testing'')
      else if present KDocs fs \<and> \<not> present KComponent fs \<and> \<not> present KAPI fs
        then (''docs'', ''documentation'')
      else if present KConfig fs \<and> length fs \<le> 3 then (''chore'', ''configuration'')
      else if present KCLI fs then (''build'', ''cli'')
      else if present KBuild fs then (''build'', ''build'')
      else if present KStyle fs \<and> \<not> present KComponent fs \<and> \<not> present KAPI fs
        then (''style'', ''styling'')
      else if present KAPI fs then
        (if sum_list (map additions fs) > 50 then ''feat'' else ''fix'', ''API'')
      else if present KComponent fs then
        (if sum_list (map additions fs) > 50 then ''feat'' else ''fix'', ''components'')
      else if sum_list (map additions fs) > 2 * sum_list (map deletions fs)
        then (''feat'', ''features'')
      else if sum_list (map deletions fs) > 2 * sum_list (map additions fs)
        then (''refactor'', ''refactoring'')
      else (''fix'', ''fixes''))"
  unfolding analyzeChangesForFallback_def Let_def
  by (simp add: scan_flags totalAdditions_sum totalDeletions_sum mult.commute)

text \<open>
  C3 (as amended). The classifier decides by a fixed first-match precedence over the whole
  file set: test, then docs without component or API files, then config with at most
  three files, then build or CLI (category "cli" when a CLI file is present), then style
  without component or API files, then API (feat when the total of additions exceeds 50,
  fix otherwise), then components (same), then the comparison of total additions with
  total deletions: feat/"features" when additions exceed twice the deletions,
  refactor/"refactoring" when deletions exceed twice the additions, fix/"fixes" otherwise.
  Here a file counts only for the first of the per-file patterns test, docs, config,
  build, CLI, component, API, style that its path matches (\<open>fileKind\<close>): a file of an
  earlier kind whose path also contains \<^verbatim>\<open>/api/\<close> is not an API file.
\<close>

theorem classifier_precedence:
  "(type (analyzeChangesForFallback changes), category (analyzeChangesForFallback changes)) =
     (let fs = files changes in
      if present KTest fs then (''test'', ''testing'')
      else if present KDocs fs \<and> \<not> present KComponent fs \<and> \<not> present KAPI fs
        then (''docs'', ''documentation'')
      else if present KConfig fs \<and> length fs \<le> 3 then (''chore'', ''configuration'')
      else if present KCLI fs then (''build'', ''cli'')
      else if present KBuild fs then (''build'', ''build'')
      else if present KStyle fs \<and> \<not> present KComponent fs \<and> \<not> present KAPI fs
        then (''style'', ''styling'')
      else if present KAPI fs then
        (if sum_list (map additions fs) > 50 then ''feat'' else ''fix'', ''API'')
      else if present KComponent fs then
        (if sum_list (map additions fs) > 50 then ''feat'' else ''fix'', ''components'')
      else if sum_list (map additions fs) > 2 * sum_list (map deletions fs)
        then (''feat'', ''features'')
      else if sum_list (map deletions fs) > 2 * sum_list (map additions fs)
        then (''refactor'', ''refactoring'')
      else (''fix'', ''fixes''))"
  by (rule type_category_cascade)

theorem classifier_precedence_witness:
  "(type (analyzeChangesForFallback
       \<lparr>files = [\<lparr>file_name = ''src/api/users/route.ts'', status = ''A'', additions = 80,
                  deletions = 0, diff = ''+router.post(h)''\<rparr>],
        summary = ''1 file(s) changed, 80 insertions(+), 0 deletions(-)'', hasChanges = True\<rparr>),
    category (analyzeChangesForFallback
       \<lparr>files = [\<lparr>file_name = ''src/api/users/route.ts'', status = ''A'', additions = 80,
                  deletions = 0, diff = ''+router.post(h)''\<rparr>],
        summary = ''1 file(s) changed, 80 insertions(+), 0 deletions(-)'', hasChanges = True\<rparr>))
   = (''feat'', ''API'')"
  using classifier_precedence [of
       "\<lparr>files = [\<lparr>file_name = ''src/api/users/route.ts'', status = ''A'', additions = 80,
                  deletions = 0, diff = ''+router.post(h)''\<rparr>],
        summary = ''1 file(s) changed, 80 insertions(+), 0 deletions(-)'', hasChanges = True\<rparr>"]
  by (simp add: present_def fileKind_def js_endsWith_def)

text \<open>
  The claim as worded, with "API-path files present" meaning that some path matches the API
  pattern, fails: for one changed file \<^verbatim>\<open>src/app/api/og/route.tsx\<close> no earlier rule
  applies and the rules as worded give fix/"API", but the program takes the file for a
  component file and gives fix/"components".
\<close>

theorem classifier_precedence_counterexample:
  "matchesPattern KAPI ''src/app/api/og/route.tsx''
   \<and> classifyAsWorded (files route_tsx) = (''fix'', ''API'')
   \<and> (type (analyzeChangesForFallback route_tsx), category (analyzeChangesForFallback route_tsx))
       = (''fix'', ''components'')"
  by code_simp

lemma present_mset: "mset xs = mset ys \<Longrightarrow> present k xs = present k ys"
  using mset_eq_setD [of xs ys] by (simp add: present_def)

lemma sum_list_map_mset:
  fixes g :: "'a \<Rightarrow> nat"
  shows "mset xs = mset ys \<Longrightarrow> sum_list (map g xs) = sum_list (map g ys)"
proof -
  assume "mset xs = mset ys"
  then have "mset (map g xs) = mset (map g ys)" by simp
  then have "sum_mset (mset (map g xs)) = sum_mset (mset (map g ys))" by simp
  then show ?thesis by (simp only: sum_mset_sum_list)
qed

lemma notable_mset:
  "mset xs = mset ys \<Longrightarrow>
   mset (map file_name (filter notable xs)) = mset (map file_name (filter notable ys))"
  by (metis mset_filter mset_map)

lemma mainFiles_notable:
  "mainFiles (analyzeChangesForFallback changes) = map file_name (filter notable (files changes))"
  by (simp add: analyzeChangesForFallback_def Let_def scan_flags)

text \<open>
  C7. Permuting the files of a change set leaves the classification as it is: the same
  type, the same category label, and the same notable files (\<open>mainFiles\<close>, a subset of the
  paths: the same set, and each path as many times as before).
\<close>

theorem classifier_permutation:
  assumes "mset (files changes') = mset (files changes)"
  shows "type (analyzeChangesForFallback changes') = type (analyzeChangesForFallback changes)
       \<and> category (analyzeChangesForFallback changes') = category (analyzeChangesForFallback changes)
       \<and> set (mainFiles (analyzeChangesForFallback changes'))
           = set (mainFiles (analyzeChangesForFallback changes))
       \<and> mset (mainFiles (analyzeChangesForFallback changes'))
           = mset (mainFiles (analyzeChangesForFallback changes))"
proof -
  have len: "length (files changes') = length (files changes)"
    using assms by (rule mset_eq_length)
  have tc: "(type (analyzeChangesForFallback changes'), category (analyzeChangesForFallback changes'))
          = (type (analyzeChangesForFallback changes), category (analyzeChangesForFallback changes))"
    unfolding type_category_cascade Let_def
    by (simp only: present_mset [OF assms] sum_list_map_mset [OF assms] len)
  have mf: "mset (mainFiles (analyzeChangesForFallback changes'))
      = mset (mainFiles (analyzeChangesForFallback changes))"
    using notable_mset [OF assms] by (simp add: mainFiles_notable)
  from mf have sf: "set (mainFiles (analyzeChangesForFallback changes'))
      = set (mainFiles (analyzeChangesForFallback changes))"
    by (rule mset_eq_setD)
  from tc mf sf show ?thesis by simp
qed

theorem classifier_permutation_witness:
  "mset (files changes_ba) = mset (files changes_ab)
   \<and> type (analyzeChangesForFallback changes_ba) = type (analyzeChangesForFallback changes_ab)
   \<and> category (analyzeChangesForFallback changes_ba) = category (analyzeChangesForFallback changes_ab)
   \<and> set (mainFiles (analyzeChangesForFallback changes_ba))
       = set (mainFiles (analyzeChangesForFallback changes_ab))
   \<and> mset (mainFiles (analyzeChangesForFallback changes_ba))
       = mset (mainFiles (analyzeChangesForFallback changes_ab))"
proof -
  have h: "mset (files changes_ba) = mset (files changes_ab)"
    by (simp add: changes_ab_def changes_ba_def add_mset_commute)
  from h classifier_permutation [OF h] show ?thesis by (rule conjI)
qed

section \<open>Properties of the regular expressions\<close>

lemma rx_match_Seq_Atom:
  "rx_match (Seq (Atom P # rs)) (i, s, caps) =
     (case s of [] \<Rightarrow> [] | c # cs \<Rightarrow> if P c then rx_match (Seq rs) (Suc i, cs, caps) else [])"
  by (cases s) simp_all

lemma rx_match_Lit_aux:
  "rx_match (Seq (map (\<lambda>c. Atom (\<lambda>x. x = c)) w)) (i, s, caps) =
     (if take (length w) s = w \<and> length w \<le> length s then [(i + length w, drop (length w) s, caps)] else [])"
proof (induction w arbitrary: i s)
  case Nil
  show ?case by simp
next
  case (Cons a w)
  show ?case
  proof (cases s)
    case Nil
    then show ?thesis by simp
  next
    case (Cons c cs)
    then show ?thesis
      using Cons.IH [of "Suc i" cs] by (auto simp del: rx_match.simps simp add: rx_match_Seq_Atom)
  qed
qed

lemma rx_match_Lit:
  "rx_match (Lit w) (i, s, caps) =
     (if take (length w) s = w \<and> length w \<le> length s then [(i + length w, drop (length w) s, caps)] else [])"
  unfolding Lit_def by (rule rx_match_Lit_aux)

lemma rx_match_LitI_aux:
  "rx_match (Seq (map (\<lambda>c. Atom (\<lambda>x. lowerChar x = c)) w)) (i, s, caps) =
     (if map lowerChar (take (length w) s) = w \<and> length w \<le> length s
      then [(i + length w, drop (length w) s, caps)] else [])"
proof (induction w arbitrary: i s)
  case Nil
  show ?case by simp
next
  case (Cons a w)
  show ?case
  proof (cases s)
    case Nil
    then show ?thesis by simp
  next
    case (Cons c cs)
    then show ?thesis
      using Cons.IH [of "Suc i" cs] by (auto simp del: rx_match.simps simp add: rx_match_Seq_Atom)
  qed
qed

lemma rx_match_LitI:
  "rx_match (LitI w) (i, s, caps) =
     (if map lowerChar (take (length w) s) = w \<and> length w \<le> length s
      then [(i + length w, drop (length w) s, caps)] else [])"
  unfolding LitI_def by (rule rx_match_LitI_aux)

lemma searchFrom_Some:
  "searchFrom r i s = Some caps \<Longrightarrow>
   \<exists>i' s' j s''. (j, s'', caps) \<in> set (rx_match r (i', s', Map.empty))"
proof (induction r i s rule: searchFrom.induct)
  case (1 r i s)
  show ?case
  proof (cases "rx_match r (i, s, Map.empty)")
    case Nil
    with "1.prems" obtain c cs where s: "s = c # cs" and "searchFrom r (Suc i) cs = Some caps"
      by (cases s) auto
    with "1.IH" [OF Nil s] show ?thesis by blast
  next
    case (Cons st sts)
    obtain j s' caps' where "st = (j, s', caps')" by (cases st) auto
    with Cons "1.prems" have "caps' = caps" by simp
    with Cons \<open>st = (j, s', caps')\<close> have "(j, s', caps) \<in> set (rx_match r (i, s, Map.empty))"
      by simp
    then show ?thesis by blast
  qed
qed

lemma rx_match_Seq_Nil: "rx_match (Seq []) st = [st]"
  by simp

lemma in_rx_match_Seq:
  "x \<in> set (rx_match (Seq (r # rs)) st) \<longleftrightarrow> (\<exists>y \<in> set (rx_match r st). x \<in> set (rx_match (Seq rs) y))"
  by auto

lemma in_rx_match_Alt:
  "x \<in> set (rx_match (Alt rs) st) \<longleftrightarrow> (\<exists>r \<in> set rs. x \<in> set (rx_match r st))"
  by (induction rs) auto

lemma in_rx_match_Cap:
  "(j, s', c') \<in> set (rx_match (Cap g r) (i, s, caps)) \<longleftrightarrow>
     (\<exists>c0. (j, s', c0) \<in> set (rx_match r (i, s, caps)) \<and> c' = c0(g \<mapsto> take (j - i) s))"
proof
  assume "(j, s', c') \<in> set (rx_match (Cap g r) (i, s, caps))"
  then obtain x where x: "x \<in> set (rx_match r (i, s, caps))"
    and e: "(j, s', c') = (case x of (j, s', caps') \<Rightarrow> (j, s', caps'(g \<mapsto> take (j - i) s)))"
    by (auto simp: image_iff)
  obtain j0 s0 c0 where x0: "x = (j0, s0, c0)" by (cases x) auto
  from e have "j0 = j" "s0 = s'" "c' = c0(g \<mapsto> take (j - i) s)" unfolding x0 by simp_all
  with x x0 show "\<exists>c0. (j, s', c0) \<in> set (rx_match r (i, s, caps)) \<and> c' = c0(g \<mapsto> take (j - i) s)"
    by blast
next
  assume "\<exists>c0. (j, s', c0) \<in> set (rx_match r (i, s, caps)) \<and> c' = c0(g \<mapsto> take (j - i) s)"
  then obtain c0 where m: "(j, s', c0) \<in> set (rx_match r (i, s, caps))"
    and c: "c' = c0(g \<mapsto> take (j - i) s)" by blast
  have "(j, s', c') = (\<lambda>(j, s', caps'). (j, s', caps'(g \<mapsto> take (j - i) s))) (j, s', c0)"
    using c by simp
  from this m have "(j, s', c') \<in> (\<lambda>(j, s', caps'). (j, s', caps'(g \<mapsto> take (j - i) s))) ` set (rx_match r (i, s, caps))"
    by (rule image_eqI)
  then show "(j, s', c') \<in> set (rx_match (Cap g r) (i, s, caps))" by simp
qed

lemma in_rx_match_Lit:
  "x \<in> set (rx_match (Lit w) (i, s, caps)) \<longleftrightarrow>
     (take (length w) s = w \<and> length w \<le> length s \<and> x = (i + length w, drop (length w) s, caps))"
  by (auto simp add: rx_match_Lit simp del: rx_match.simps)

lemma in_rx_match_LitI:
  "x \<in> set (rx_match (LitI w) (i, s, caps)) \<longleftrightarrow>
     (map lowerChar (take (length w) s) = w \<and> length w \<le> length s
      \<and> x = (i + length w, drop (length w) s, caps))"
  by (auto simp add: rx_match_LitI simp del: rx_match.simps)

lemma apiCall_group:
  assumes "(j, s', caps') \<in> set (rx_match reApiCall (i, s, caps))"
  shows "\<exists>w. caps' 1 = Some w \<and>
           map lowerChar w \<in> {''get'', ''post'', ''put'', ''patch'', ''delete''}"
proof -
  define ws where "ws = [''get'', ''post'', ''put'', ''patch'', ''delete'']"
  define A where "A = Alt (map LitI ws)"
  define dot where "dot = Lit ''.''"
  define par where "par = Lit ''(''"
  have re: "reApiCall = Seq [dot, Cap 1 A, par]"
    by (simp add: reApiCall_def A_def ws_def dot_def par_def)
  from assms obtain y z u where
    y: "y \<in> set (rx_match dot (i, s, caps))" and
    z: "z \<in> set (rx_match (Cap 1 A) y)" and
    u: "u \<in> set (rx_match par z)" and
    e: "(j, s', caps') \<in> set (rx_match (Seq []) u)"
    unfolding re in_rx_match_Seq by (elim bexE)
  from e have e': "u = (j, s', caps')" by (simp only: rx_match_Seq_Nil) simp
  obtain i1 s1 c1 where y1: "y = (i1, s1, c1)" by (cases y) auto
  obtain i2 s2 c2 where z1: "z = (i2, s2, c2)" by (cases z) auto
  from z obtain c0 where
    a: "(i2, s2, c0) \<in> set (rx_match A (i1, s1, c1))" and c2: "c2 = c0(1 \<mapsto> take (i2 - i1) s1)"
    unfolding y1 z1 in_rx_match_Cap by (elim exE conjE)
  from a obtain r where r: "r \<in> set (map LitI ws)" and m: "(i2, s2, c0) \<in> set (rx_match r (i1, s1, c1))"
    unfolding A_def in_rx_match_Alt by (elim bexE)
  from r obtain w where w: "w \<in> set ws" and rw: "r = LitI w" by auto
  from m have l: "map lowerChar (take (length w) s1) = w" and i2: "i2 = i1 + length w"
    unfolding rw in_rx_match_LitI by simp_all
  from u have "caps' = c2"
    unfolding z1 e' par_def in_rx_match_Lit by simp
  with c2 i2 have "caps' 1 = Some (take (length w) s1)" by simp
  moreover from l w have "map lowerChar (take (length w) s1) \<in> {''get'', ''post'', ''put'', ''patch'', ''delete''}"
    unfolding ws_def by simp
  ultimately show ?thesis by (intro exI conjI)
qed

lemma upper_of_lower:
  assumes "lowerChar x = c" and "isLower c"
  shows "upperChar x = upperChar c"
proof -
  let ?n = "of_char x :: nat"
  show ?thesis
  proof (cases "65 \<le> ?n \<and> ?n \<le> 90")
    case True
    then have c: "c = char_of (?n + 32)" using assms(1) by (simp add: lowerChar_def)
    from True have oc: "(of_char c :: nat) = ?n + 32" unfolding c by simp
    have "upperChar c = char_of ?n"
      using True oc by (simp add: upperChar_def)
    moreover have "upperChar x = x" using True by (simp add: upperChar_def)
    ultimately show ?thesis by simp
  next
    case False
    show ?thesis
    proof (cases "192 \<le> ?n \<and> ?n \<le> 222 \<and> ?n \<noteq> 215")
      case True
      then have c: "c = char_of (?n + 32)" using assms(1) by (simp add: lowerChar_def)
      from True have "(of_char c :: nat) = ?n + 32" unfolding c by simp
      with True assms(2) show ?thesis by (simp add: isLower_def)
    next
      case False
      with \<open>\<not> (65 \<le> ?n \<and> ?n \<le> 90)\<close>
      have "\<not> (65 \<le> ?n \<and> ?n \<le> 90 \<or> 192 \<le> ?n \<and> ?n \<le> 222 \<and> ?n \<noteq> 215)"
        by blast
      then have "lowerChar x = x"
        unfolding lowerChar_def Let_def by (simp only: if_False)
      with assms(1) show ?thesis by simp
    qed
  qed
qed


lemma upper_of_lower_map:
  "map lowerChar w = v \<Longrightarrow> list_all isLower v \<Longrightarrow> js_toUpperCase w = js_toUpperCase v"
proof (induction w arbitrary: v)
  case Nil
  then show ?case by simp
next
  case (Cons x w)
  then obtain c v' where v: "v = c # v'" and lc: "lowerChar x = c" and lw: "map lowerChar w = v'" by auto
  from Cons.prems(2) v have ic: "isLower c" and iv: "list_all isLower v'" by auto
  have 1: "upperChar x = upperChar c" using lc ic by (rule upper_of_lower)
  have 2: "js_toUpperCase w = js_toUpperCase v'" using lw iv by (rule Cons.IH)
  show ?case using 1 2 unfolding v js_toUpperCase_def by simp
qed

lemma upper_verbs:
  "js_toUpperCase ''get'' = ''GET''" "js_toUpperCase ''post'' = ''POST''"
  "js_toUpperCase ''put'' = ''PUT''" "js_toUpperCase ''patch'' = ''PATCH''"
  "js_toUpperCase ''delete'' = ''DELETE''"
  by code_simp+

lemma lower_verbs:
  "list_all isLower ''get''" "list_all isLower ''post''" "list_all isLower ''put''"
  "list_all isLower ''patch''" "list_all isLower ''delete''"
  by (simp_all add: isLower_def)

lemma upper_in_verbs:
  assumes "map lowerChar w \<in> {''get'', ''post'', ''put'', ''patch'', ''delete''}"
  shows "js_toUpperCase w \<in> set httpVerbs"
proof -
  have *: "map lowerChar w = v \<Longrightarrow> list_all isLower v \<Longrightarrow> js_toUpperCase v \<in> set httpVerbs
        \<Longrightarrow> js_toUpperCase w \<in> set httpVerbs" for v
    using upper_of_lower_map [of w v] by simp
  from assms have "map lowerChar w = ''get'' \<or> map lowerChar w = ''post'' \<or> map lowerChar w = ''put''
      \<or> map lowerChar w = ''patch'' \<or> map lowerChar w = ''delete''"
    by (simp only: insert_iff empty_iff HOL.simp_thms)
  then show ?thesis
  proof (elim disjE)
    assume a: "map lowerChar w = ''get''"
    show ?thesis by (rule * [OF a lower_verbs(1)]) (simp only: upper_verbs httpVerbs_def list.set insert_iff HOL.simp_thms)
  next
    assume a: "map lowerChar w = ''post''"
    show ?thesis by (rule * [OF a lower_verbs(2)]) (simp only: upper_verbs httpVerbs_def list.set insert_iff HOL.simp_thms)
  next
    assume a: "map lowerChar w = ''put''"
    show ?thesis by (rule * [OF a lower_verbs(3)]) (simp only: upper_verbs httpVerbs_def list.set insert_iff HOL.simp_thms)
  next
    assume a: "map lowerChar w = ''patch''"
    show ?thesis by (rule * [OF a lower_verbs(4)]) (simp only: upper_verbs httpVerbs_def list.set insert_iff HOL.simp_thms)
  next
    assume a: "map lowerChar w = ''delete''"
    show ?thesis by (rule * [OF a lower_verbs(5)]) (simp only: upper_verbs httpVerbs_def list.set insert_iff HOL.simp_thms)
  qed
qed

lemma apiCall_verb:
  assumes "js_match content reApiCall = Some c"
  shows "js_toUpperCase (group c 1) \<in> set httpVerbs"
proof -
  from assms have "searchFrom reApiCall 0 content = Some c" by (simp only: js_match_def)
  from searchFrom_Some [OF this] obtain i' s' j s''
    where "(j, s'', c) \<in> set (rx_match reApiCall (i', s', Map.empty))" by (elim exE)
  from apiCall_group [OF this] obtain w where w: "c 1 = Some w"
    and l: "map lowerChar w \<in> {''get'', ''post'', ''put'', ''patch'', ''delete''}" by (elim exE conjE)
  have g: "group c 1 = w" using w by (simp add: group_def)
  show ?thesis unfolding g using l by (rule upper_in_verbs)
qed

section \<open>Properties of the diff feature extractor\<close>

lemma detect_keeps_api:
  "apiChanges (detectFunction content a) = apiChanges a"
  "apiChanges (detectArrow content a) = apiChanges a"
  "apiChanges (detectClass content a) = apiChanges a"
  "apiChanges (detectComponent path content a) = apiChanges a"
  "apiChanges (detectImport content a) = apiChanges a"
  "apiChanges (detectConfig path content a) = apiChanges a"
  "apiChanges (detectUi path content a) = apiChanges a"
  by (simp_all add: detectFunction_def detectArrow_def detectClass_def detectComponent_def
      detectImport_def detectConfig_def detectUi_def Let_def split: option.splits)

lemma detectApi_verbs:
  "set (apiChanges a) \<subseteq> set httpVerbs \<Longrightarrow> set (apiChanges (detectApi path content a)) \<subseteq> set httpVerbs"
  using apiCall_verb [of content]
  by (auto simp add: detectApi_def split: option.splits)

lemma scanLine_verbs:
  "set (apiChanges a) \<subseteq> set httpVerbs \<Longrightarrow> set (apiChanges (scanLine path a line)) \<subseteq> set httpVerbs"
  unfolding scanLine_def Let_def
  by (simp only: detect_keeps_api detectApi_verbs split: if_splits) (simp add: detectApi_verbs detect_keeps_api)

lemma foldl_scanLine_verbs:
  "set (apiChanges a) \<subseteq> set httpVerbs \<Longrightarrow>
   set (apiChanges (foldl (scanLine path) a ls)) \<subseteq> set httpVerbs"
  by (induction ls arbitrary: a) (simp_all add: scanLine_verbs)

lemma rawSignals_verbs_aux:
  "set (apiChanges a) \<subseteq> set httpVerbs \<Longrightarrow>
   set (apiChanges (foldl (\<lambda>acc f. foldl (scanLine (file_name f)) acc (js_split CHR 0x0A (diff f))) a fs))
     \<subseteq> set httpVerbs"
  by (induction fs arbitrary: a) (simp_all add: foldl_scanLine_verbs)

lemma rawSignals_verbs: "set (apiChanges (rawSignals fs)) \<subseteq> set httpVerbs"
  unfolding rawSignals_def by (rule rawSignals_verbs_aux) (simp add: emptyDiffAnalysis_def)

lemma uniqueValues_distinct: "distinct (uniqueValues xs)"
  by (simp add: uniqueValues_def)

lemma uniqueValues_set: "set (uniqueValues xs) = set xs"
  by (simp add: uniqueValues_def)

lemma distinct_in_verbs:
  assumes "distinct xs" and "set xs \<subseteq> set httpVerbs"
  shows "length xs \<le> 5"
proof -
  have "card (set xs) \<le> card (set httpVerbs)" using assms(2) by (simp add: card_mono)
  also have "card (set httpVerbs) \<le> length httpVerbs" by (rule card_length)
  also have "length httpVerbs = 5" by (simp add: httpVerbs_def)
  finally show ?thesis using assms(1) by (simp add: distinct_card)
qed

text \<open>
  C5 (as amended). In the result of \<open>analyzeDiffsInDepth\<close> every signal list is the list of
  detected names (\<open>rawSignals\<close>, in the order of detection) with its duplicates removed
  first and then cut: to 5 new-function names, 3 new-class names, 5 new-component names,
  5 new-dependency roots, 5 config keys and 10 UI tags (the source cuts this list at ten,
  not five); the HTTP-verb list has its duplicates removed and is not cut, and holds at
  most 5 verbs, since only the five verbs of the pattern can enter it. So every list is
  free of duplicates and within its bound.
\<close>

theorem signal_caps:
  "newFunctions (analyzeDiffsInDepth changes)
     = take 5 (uniqueValues (newFunctions (rawSignals (files changes))))
   \<and> newClasses (analyzeDiffsInDepth changes)
     = take 3 (uniqueValues (newClasses (rawSignals (files changes))))
   \<and> newComponents (analyzeDiffsInDepth changes)
     = take 5 (uniqueValues (newComponents (rawSignals (files changes))))
   \<and> newImports (analyzeDiffsInDepth changes)
     = take 5 (uniqueValues (newImports (rawSignals (files changes))))
   \<and> configChanges (analyzeDiffsInDepth changes)
     = take 5 (uniqueValues (configChanges (rawSignals (files changes))))
   \<and> uiChanges (analyzeDiffsInDepth changes)
     = take 10 (uniqueValues (uiChanges (rawSignals (files changes))))
   \<and> apiChanges (analyzeDiffsInDepth changes)
     = uniqueValues (apiChanges (rawSignals (files changes)))
   \<and> length (newFunctions (analyzeDiffsInDepth changes)) \<le> 5
   \<and> distinct (newFunctions (analyzeDiffsInDepth changes))
   \<and> length (newClasses (analyzeDiffsInDepth changes)) \<le> 3
   \<and> distinct (newClasses (analyzeDiffsInDepth changes))
   \<and> length (newComponents (analyzeDiffsInDepth changes)) \<le> 5
   \<and> distinct (newComponents (analyzeDiffsInDepth changes))
   \<and> length (newImports (analyzeDiffsInDepth changes)) \<le> 5
   \<and> distinct (newImports (analyzeDiffsInDepth changes))
   \<and> length (configChanges (analyzeDiffsInDepth changes)) \<le> 5
   \<and> distinct (configChanges (analyzeDiffsInDepth changes))
   \<and> length (uiChanges (analyzeDiffsInDepth changes)) \<le> 10
   \<and> distinct (uiChanges (analyzeDiffsInDepth changes))
   \<and> length (apiChanges (analyzeDiffsInDepth changes)) \<le> 5
   \<and> distinct (apiChanges (analyzeDiffsInDepth changes))"
proof -
  have api: "length (uniqueValues (apiChanges (rawSignals (files changes)))) \<le> 5"
    by (rule distinct_in_verbs) (simp_all add: uniqueValues_distinct uniqueValues_set rawSignals_verbs)
  show ?thesis
    unfolding analyzeDiffsInDepth_def Let_def
    using api by (simp add: uniqueValues_distinct)
qed

text \<open>
  Five class declarations, the first one twice: the duplicate goes first, then the list of
  four is cut to three. (Cutting first would leave two names.)
\<close>

lemma five_class_lines_raw:
  "newClasses (rawSignals (files five_class_lines))
     = [''Circle'', ''Circle'', ''Square'', ''Line'', ''Point'']"
  by code_simp

lemma five_class_lines_cut:
  "take 3 (uniqueValues [''Circle'', ''Circle'', ''Square'', ''Line'', ''Point''])
     = [''Circle'', ''Square'', ''Line'']"
  by code_simp

theorem signal_caps_witness:
  "newClasses (rawSignals (files five_class_lines))
     = [''Circle'', ''Circle'', ''Square'', ''Line'', ''Point'']
   \<and> newClasses (analyzeDiffsInDepth five_class_lines) = [''Circle'', ''Square'', ''Line'']
   \<and> length (newClasses (analyzeDiffsInDepth five_class_lines)) \<le> 3
   \<and> distinct (newClasses (analyzeDiffsInDepth five_class_lines))"
proof -
  from signal_caps [of five_class_lines]
  have e: "newClasses (analyzeDiffsInDepth five_class_lines)
     = take 3 (uniqueValues (newClasses (rawSignals (files five_class_lines))))"
    and l: "length (newClasses (analyzeDiffsInDepth five_class_lines)) \<le> 3"
    and d: "distinct (newClasses (analyzeDiffsInDepth five_class_lines))"
    by blast+
  from e have "newClasses (analyzeDiffsInDepth five_class_lines) = [''Circle'', ''Square'', ''Line'']"
    by (simp only: five_class_lines_raw five_class_lines_cut)
  with five_class_lines_raw l d show ?thesis by (intro conjI)
qed

text \<open>Six different tags in a \<open>.tsx\<close> file give six UI-tag tokens.\<close>

lemma six_tags_ui:
  "uiChanges (analyzeDiffsInDepth six_tags) = [''Header'', ''Nav'', ''Hero'', ''Card'', ''List'', ''Footer'']"
  by code_simp

theorem signal_caps_counterexample:
  "\<not> length (uiChanges (analyzeDiffsInDepth six_tags)) \<le> 5"
  unfolding six_tags_ui by simp

section \<open>Properties of the heuristic summarizer and the orchestrator\<close>

lemma fallback_fields:
  "\<exists>s. generateFallbackSuggestions h changes = [s] \<and> confidence s = 85 / 100 \<and> \<not> breaking s
       \<and> stype s = type (analyzeChangesForFallback changes)
       \<and> fullMessage s = renderMessage (stype s) (scope s) False (subject s) (body s)"
  by (simp add: generateFallbackSuggestions_def Let_def renderMessage_def headerLine_def
      split: option.splits)

lemma fallback_nonempty: "generateFallbackSuggestions h changes \<noteq> []"
  using fallback_fields [of h changes] by auto

text \<open>The model that a run calls, if any: the loaded one, or the one that loading gives.\<close>

lemma generateCommitMessage_cases:
  "fst (generateCommitMessage h env a changes) =
     Inr (if skipEnv env \<or> modelId a = ''none'' then generateFallbackSuggestions h changes
          else (case modelInUse env a of
                  Some (Resolves generatedText) \<Rightarrow>
                    if parseAIResponse generatedText changes \<noteq> []
                    then parseAIResponse generatedText changes
                    else generateFallbackSuggestions h changes
                | _ \<Rightarrow> generateFallbackSuggestions h changes))"
  by (simp add: generateCommitMessage_def tryGenerative_def loadModel_def withTimeout_def
      generateAIBasedSuggestions_def modelInUse_def Let_def split: option.splits model_call.splits)


text \<open>
  C1. \<open>generateCommitMessage\<close> always returns a list with at least one suggestion and no
  exception leaves it, for every change set (empty or not), every state of the assistant
  and every behaviour of the model; whenever the generative path fails (model load
  failure, call failure, call timeout, no parsed suggestion) the result is the result of
  the heuristic path.
\<close>

theorem generate_never_throws:
  "(\<exists>s. fst (generateCommitMessage h env a changes) = Inr s \<and> s \<noteq> [])
   \<and> (generativeFailure env a changes \<longrightarrow>
        fst (generateCommitMessage h env a changes) = Inr (generateFallbackSuggestions h changes))"
  by (simp add: generateCommitMessage_cases generativeFailure_def fallback_nonempty
      split: option.splits model_call.splits)

theorem generate_never_throws_witness:
  "generativeFailure env_pending fresh_assistant six_tags
   \<and> (\<exists>s. fst (generateCommitMessage source_helpers env_pending fresh_assistant six_tags) = Inr s
          \<and> s \<noteq> [])
   \<and> fst (generateCommitMessage source_helpers env_pending fresh_assistant six_tags)
       = Inr (generateFallbackSuggestions source_helpers six_tags)"
proof -
  have f: "generativeFailure env_pending fresh_assistant six_tags"
    by (simp add: generativeFailure_def modelInUse_def env_pending_def fresh_assistant_def)
  with generate_never_throws [of source_helpers env_pending fresh_assistant six_tags]
  show ?thesis by blast
qed

text \<open>
  C2. The heuristic summarizer returns exactly one suggestion, with confidence 0.85, for
  every change set; and when the generative call is still pending at the timeout (AI not
  skipped, a model in use), \<open>generateCommitMessage\<close> returns that one suggestion.
\<close>

theorem fallback_exactly_one:
  "(\<exists>s. generateFallbackSuggestions h changes = [s] \<and> confidence s = 85 / 100)
   \<and> (\<not> skipEnv env \<and> modelId a \<noteq> ''none'' \<and> modelInUse env a = Some Pending \<longrightarrow>
        (\<exists>s. fst (generateCommitMessage h env a changes) = Inr [s] \<and> confidence s = 85 / 100
             \<and> [s] = generateFallbackSuggestions h changes))"
  using fallback_fields [of h changes]
  by (auto simp add: generateCommitMessage_cases)

theorem fallback_exactly_one_witness:
  "(\<not> skipEnv env_pending \<and> modelId fresh_assistant \<noteq> ''none''
      \<and> modelInUse env_pending fresh_assistant = Some Pending)
   \<and> (\<exists>s. fst (generateCommitMessage source_helpers env_pending fresh_assistant six_tags) = Inr [s]
          \<and> confidence s = 85 / 100)"
proof -
  have p: "\<not> skipEnv env_pending \<and> modelId fresh_assistant \<noteq> ''none''
      \<and> modelInUse env_pending fresh_assistant = Some Pending"
    by (simp add: modelInUse_def env_pending_def fresh_assistant_def)
  with fallback_exactly_one [of source_helpers six_tags env_pending fresh_assistant]
  show ?thesis by blast
qed

section \<open>Properties of the header pattern\<close>

lemma in_rx_match_Many:
  "x \<in> set (rx_match (Many n P) (i, s, c)) \<longleftrightarrow>
     (\<exists>k. n \<le> k \<and> k \<le> length (takeWhile P s) \<and> x = (i + k, drop k s, c))"
  by (auto simp add: image_iff)

lemma in_rx_match_Opt:
  "x \<in> set (rx_match (Opt r) st) \<longleftrightarrow> x \<in> set (rx_match r st) \<or> x = st"
  by auto

lemma in_rx_match_Bol:
  "x \<in> set (rx_match Bol (i, s, c)) \<longleftrightarrow> i = 0 \<and> x = (i, s, c)"
  by auto


text \<open>A match consumes a prefix of the rest of the input.\<close>

lemma rx_match_rest:
  "x \<in> set (rx_match r st) \<Longrightarrow> \<exists>p. fst (snd st) = p @ fst (snd x)"
proof (induction r st arbitrary: x rule: rx_match.induct)
  case (1 P i s caps)
  then show ?case by (cases s) (auto split: if_splits)
next
  case (2 n P i s caps)
  then obtain k where "x = (i + k, drop k s, caps)" unfolding in_rx_match_Many by (elim exE conjE)
  then have "s = take k s @ fst (snd x)" by simp
  then show ?case by (metis fst_conv snd_conv)
next
  case (3 st)
  then show ?case by simp
next
  case (4 r rs st)
  from "4.prems" obtain y where y: "y \<in> set (rx_match r st)" and x: "x \<in> set (rx_match (Seq rs) y)"
    unfolding in_rx_match_Seq by (elim bexE)
  from "4.IH"(1) [OF y] obtain p where p: "fst (snd st) = p @ fst (snd y)" by (elim exE)
  from "4.IH"(2) [OF y x] obtain q where q: "fst (snd y) = q @ fst (snd x)" by (elim exE)
  from p q have "fst (snd st) = (p @ q) @ fst (snd x)" by simp
  then show ?case by (rule exI)
next
  case (5 st)
  then show ?case by simp
next
  case (6 r rs st)
  from "6.prems" have "x \<in> set (rx_match r st) \<or> x \<in> set (rx_match (Alt rs) st)" by simp
  then show ?case using "6.IH" by (elim disjE) simp_all
next
  case (7 r st)
  from "7.prems" have "x \<in> set (rx_match r st) \<or> x = st" unfolding in_rx_match_Opt .
  then show ?case
  proof (elim disjE)
    assume "x \<in> set (rx_match r st)"
    then show ?thesis by (rule "7.IH")
  next
    assume "x = st"
    then have "fst (snd st) = [] @ fst (snd x)" by simp
    then show ?thesis by (rule exI)
  qed
next
  case (8 g r i s caps)
  obtain j s' c' where x: "x = (j, s', c')" by (cases x) auto
  from "8.prems" obtain c0 where "(j, s', c0) \<in> set (rx_match r (i, s, caps))"
    unfolding x in_rx_match_Cap by (elim exE conjE)
  from "8.IH" [OF this] show ?case unfolding x by simp
next
  case (9 i s caps)
  then show ?case by (auto split: if_splits)
next
  case (10 i s caps)
  then show ?case by (auto split: if_splits)
qed















section \<open>The breaking marker on the heuristic path\<close>














section \<open>Properties of the version-control adapter\<close>

lemma find_path_Some:
  "file \<in> fs_path ` set fs \<Longrightarrow> \<exists>f. find (\<lambda>f. fs_path f = file) fs = Some f"
  by (induction fs) auto

lemma foldl_stagedStep:
  "set fl \<subseteq> fs_path ` set fs \<Longrightarrow>
   map file_name (foldl (stagedStep fs gd) entries fl) = map file_name entries @ fl"
proof (induction fl arbitrary: entries)
  case Nil
  show ?case by simp
next
  case (Cons x fl)
  from Cons.prems have "x \<in> fs_path ` set fs" by simp
  then obtain f where f: "find (\<lambda>f. fs_path f = x) fs = Some f"
    using find_path_Some by blast
  have "map file_name (stagedStep fs gd entries x) = map file_name entries @ [x]"
    by (simp add: stagedStep_def diffEntry_def f Let_def split: sum.splits)
  with Cons.IH [of "stagedStep fs gd entries x"] Cons.prems show ?case by simp
qed

text \<open>
  The version with the placeholder keeps every staged file that \<open>status.files\<close> lists, in
  order, whether or not its diff can be read; then \<open>hasChanges\<close> agrees with \<open>files\<close>.
\<close>

lemma getStagedChanges_keeps_files:
  assumes "git_status g = Inr st" and "set (staged st) \<subseteq> fs_path ` set (status_files st)"
  shows "\<exists>c. getStagedChanges g = Inr c \<and> map file_name (files c) = staged st
           \<and> hasChanges c = (length (files c) > 0)"
proof (cases "staged st = []")
  case True
  with assms(1) show ?thesis
    by (simp add: getStagedChanges_def getStagedChangesWith_def)
next
  case False
  let ?ds = "foldl (stagedStep (status_files st) (git_diff g)) [] (staged st)"
  have m: "map file_name ?ds = staged st"
    using foldl_stagedStep [OF assms(2), of "git_diff g" "[]"] by simp
  then have "length ?ds = length (staged st)" by (metis length_map)
  with False have "length ?ds > 0" by simp
  with assms(1) False m show ?thesis
    by (simp add: getStagedChanges_def getStagedChangesWith_def Let_def)
qed

lemma getStagedChanges_placeholder:
  "getStagedChanges one_failing_diff =
     Inr \<lparr>files = [\<lparr>file_name = ''old.ts'', status = ''D'', additions = 0, deletions = 0,
                     diff = ''// Unable to retrieve diff for old.ts''\<rparr>],
          summary = ''1 file(s) changed, 0 insertions(+), 0 deletions(-)'', hasChanges = True\<rparr>"
  by code_simp

text \<open>
  C8. The claim holds for the version of \<open>getStagedChanges\<close> that pushes a placeholder
  (above). The other version in the repository drops a file whose diff cannot be read: for
  one staged file with a failing diff it returns no files at all, and still
  \<open>hasChanges = true\<close>.
\<close>

theorem getStagedChanges_part_004_drops_file:
  "getStagedChanges_part_004 one_failing_diff =
     Inr \<lparr>files = [], summary = ''0 file(s) changed, 0 insertions(+), 0 deletions(-)'',
          hasChanges = True\<rparr>"
  by code_simp

section \<open>Properties of the result cache\<close>

lemma chooseSuggestions_origin:
  "fst (chooseSuggestions r a file changes) = FromCache \<longleftrightarrow>
     (\<exists>cache. file = Entry cache \<and> loadTime r - timestamp cache < 5 * 60 * 1000
        \<and> changesSummary cache = summary changes \<and> cached cache \<noteq> [])"
  by (cases "file")
     (auto simp add: chooseSuggestions_def loadCache_def split: prod.splits sum.splits)

lemma chooseSuggestions_cached:
  "fst (chooseSuggestions r a (Entry cache) changes) = FromCache \<Longrightarrow>
   fst (snd (chooseSuggestions r a (Entry cache) changes)) = Inr (cached cache)"
  by (auto simp add: chooseSuggestions_def loadCache_def split: prod.splits sum.splits if_splits)

lemma chooseSuggestions_generated:
  "fst (chooseSuggestions r a file changes) \<noteq> FromCache \<Longrightarrow>
   fst (chooseSuggestions r a file changes) = Generated
   \<and> fst (snd (chooseSuggestions r a file changes))
       = fst (generateCommitMessage (helpers_used r) (run_env r) a changes)"
  by (auto simp add: chooseSuggestions_def split: prod.splits sum.splits option.splits if_splits)

text \<open>
  C9. The suggestions of a cache entry are reused only if its \<open>changesSummary\<close> equals the
  summary of the current change set and its age is below five minutes; an entry that
  fails either condition is a miss, and the suggestions are generated.
\<close>

theorem cache_reuse_only_if_valid:
  "(fst (chooseSuggestions r a file changes) = FromCache \<longrightarrow>
      (\<exists>cache. file = Entry cache \<and> changesSummary cache = summary changes
         \<and> loadTime r - timestamp cache < 5 * 60 * 1000
         \<and> fst (snd (chooseSuggestions r a file changes)) = Inr (cached cache)))
   \<and> (\<forall>cache. file = Entry cache
         \<and> (changesSummary cache \<noteq> summary changes \<or> \<not> loadTime r - timestamp cache < 5 * 60 * 1000)
         \<longrightarrow> fst (chooseSuggestions r a file changes) = Generated
             \<and> fst (snd (chooseSuggestions r a file changes))
                 = fst (generateCommitMessage (helpers_used r) (run_env r) a changes))"
proof (intro conjI impI allI)
  assume c: "fst (chooseSuggestions r a file changes) = FromCache"
  then obtain cache where e: "file = Entry cache"
    and v: "loadTime r - timestamp cache < 5 * 60 * 1000" "changesSummary cache = summary changes"
    unfolding chooseSuggestions_origin by (elim exE conjE)
  from c have "fst (snd (chooseSuggestions r a file changes)) = Inr (cached cache)"
    unfolding e by (rule chooseSuggestions_cached)
  with e v show "\<exists>cache. file = Entry cache \<and> changesSummary cache = summary changes
         \<and> loadTime r - timestamp cache < 5 * 60 * 1000
         \<and> fst (snd (chooseSuggestions r a file changes)) = Inr (cached cache)" by blast
next
  fix cache
  assume h: "file = Entry cache
         \<and> (changesSummary cache \<noteq> summary changes \<or> \<not> loadTime r - timestamp cache < 5 * 60 * 1000)"
  then have n: "fst (chooseSuggestions r a file changes) \<noteq> FromCache"
    unfolding chooseSuggestions_origin by auto
  from chooseSuggestions_generated [OF n]
  show "fst (chooseSuggestions r a file changes) = Generated" by (rule conjunct1)
  from chooseSuggestions_generated [OF n]
  show "fst (snd (chooseSuggestions r a file changes))
                 = fst (generateCommitMessage (helpers_used r) (run_env r) a changes)"
    by (rule conjunct2)
qed

theorem cache_reuse_only_if_valid_witness:
  "fst (chooseSuggestions run_in_time fresh_assistant cache_of_review six_tags) = FromCache
   \<and> fst (chooseSuggestions run_late fresh_assistant cache_of_review six_tags) = Generated"
proof -
  have 1: "fst (chooseSuggestions run_in_time fresh_assistant cache_of_review six_tags) = FromCache"
    by code_simp
  have "cache_of_review = Entry \<lparr>cached = generateFallbackSuggestions source_helpers six_tags,
            changesSummary = summary six_tags, timestamp = 1000000\<rparr>
      \<and> (changesSummary \<lparr>cached = generateFallbackSuggestions source_helpers six_tags,
            changesSummary = summary six_tags, timestamp = 1000000\<rparr> \<noteq> summary six_tags
         \<or> \<not> loadTime run_late - timestamp \<lparr>cached = generateFallbackSuggestions source_helpers six_tags,
            changesSummary = summary six_tags, timestamp = 1000000\<rparr> < 5 * 60 * 1000)"
    by (simp add: cache_of_review_def run_late_def)
  with cache_reuse_only_if_valid [of run_late fresh_assistant cache_of_review six_tags]
  have "fst (chooseSuggestions run_late fresh_assistant cache_of_review six_tags) = Generated"
    by blast
  with 1 show ?thesis by simp
qed

end
